theory Spec2Isabelle
  imports
    Complex_Main
    "HOL-Library.Log_Nat"
    "HOL-Library.Sublist"
    "HOL-Library.Char_ord"
    "HOL-Library.List_Lexorder"
    "HOL-Library.Multiset"
begin

section \<open>float64 values\<close>

text \<open>
  Prices are Go \<^verbatim>\<open>float64\<close> values. A finite float64 is a rational number, so the
  type is \<open>rat\<close>, and every arithmetic operation of the source is the exact operation
  followed by \<open>fl64\<close>, IEEE 754 rounding to the nearest binary64 value, ties to even
  (53 significant bits, subnormals below \<open>2^-1022\<close>). Results beyond the largest finite
  float64 are not values of this type: \<open>strconv.ParseFloat\<close> reports them as a range
  error, which the model keeps, and the arithmetic of the simulated provider stays far
  below that bound on its dataset.
\<close>

type_synonym float64 = rat

definition pow2 :: "int \<Rightarrow> rat" where
  "pow2 e = (if 0 \<le> e then 2 ^ nat e else 1 / 2 ^ nat (- e))"

definition round_half_even :: "rat \<Rightarrow> int" where
  "round_half_even x =
     (let f = \<lfloor>x\<rfloor>; d = x - of_int f
      in if d < 1 / 2 then f else if 1 / 2 < d then f + 1 else if even f then f else f + 1)"

text \<open>\<open>binade a\<close> is the exponent \<open>e\<close> with \<open>2^e \<le> a < 2^(e+1)\<close>, for \<open>a > 0\<close>.\<close>

definition binade :: "rat \<Rightarrow> int" where
  "binade a =
     (let (p, q) = quotient_of a; e = bitlen p - bitlen q
      in if pow2 e \<le> a then e else e - 1)"

definition fl64 :: "rat \<Rightarrow> float64" where
  "fl64 x =
     (if x = 0 then 0
      else let a = \<bar>x\<bar>; e = max (binade a) (- 1022); u = pow2 (e - 52)
           in sgn x * of_int (round_half_even (a / u)) * u)"

text \<open>
  Rounding to nearest overflows from \<open>2^1024 - 2^970\<close> on, the midpoint between the
  largest finite float64 and \<open>2^1024\<close>.
\<close>

definition float64_overflow :: rat where
  "float64_overflow = 2 ^ 1024 - 2 ^ 970"

section \<open>Strings\<close>

text \<open>
  A Go string is a sequence of bytes, here a \<open>char list\<close>. The regular expression
  class \<^verbatim>\<open>\d\<close> of Go's \<^verbatim>\<open>regexp\<close> is the ASCII digits only.
\<close>

definition is_digit :: "char \<Rightarrow> bool" where
  "is_digit c = (c \<in> set ''0123456789'')"

definition digit_of :: "char \<Rightarrow> nat" where
  "digit_of c = of_char c - 48"

definition digits_val :: "string \<Rightarrow> nat" where
  "digits_val ds = foldl (\<lambda>acc c. 10 * acc + digit_of c) 0 ds"

section \<open>extractPrice\<close>

datatype num_error = ErrSyntax | ErrRange

text \<open>
  \<^verbatim>\<open>re.ReplaceAllString(s, "")\<close> with \<^verbatim>\<open>re = [^\d.]\<close> deletes every character that is
  neither a digit nor a dot. A multi-byte UTF-8 character has no byte that is a digit or a
  dot, so deleting it is deleting its bytes.
\<close>

definition cleaned :: "string \<Rightarrow> string" where
  "cleaned s = filter (\<lambda>c. is_digit c \<or> c = CHR ''.'') s"

text \<open>
  \<^verbatim>\<open>strconv.ParseFloat(cleaned, 64)\<close> on a string of digits and dots: the accepted
  syntax is digits, optionally a dot and more digits, with at least one digit in all;
  the value is rounded to the nearest float64, and a value that rounds beyond the finite
  range is the error \<^verbatim>\<open>ErrRange\<close> (returned with \<^verbatim>\<open>+Inf\<close>, which the caller drops).
\<close>

definition decimal_syntax :: "string \<Rightarrow> rat option" where
  "decimal_syntax cs =
     (let ip = takeWhile is_digit cs; rest = dropWhile is_digit cs
      in case rest of
           [] \<Rightarrow> if ip = [] then None else Some (of_nat (digits_val ip))
         | c # fr \<Rightarrow>
             if c = CHR ''.'' \<and> list_all is_digit fr \<and> (ip \<noteq> [] \<or> fr \<noteq> [])
             then Some (of_nat (digits_val ip) + of_nat (digits_val fr) / 10 ^ length fr)
             else None)"

definition ParseFloat :: "string \<Rightarrow> num_error + float64" where
  "ParseFloat cs =
     (case decimal_syntax cs of
        None \<Rightarrow> Inl ErrSyntax
      | Some v \<Rightarrow> if float64_overflow \<le> v then Inl ErrRange else Inr (fl64 v))"

definition extractPrice :: "string \<Rightarrow> float64" where
  "extractPrice s =
     (case ParseFloat (cleaned s) of
        Inl err \<Rightarrow> 0
      | Inr price \<Rightarrow> price)"

text \<open>
  The number a raw price string denotes, in the words of the specification: its digits
  and its decimal point, concatenated in their original order. That is the number written
  by all its digits, divided by ten for each digit that follows the point.
\<close>

definition digits_after_point :: "string \<Rightarrow> string" where
  "digits_after_point s = filter is_digit (dropWhile (\<lambda>c. c \<noteq> CHR ''.'') s)"

definition concat_value :: "string \<Rightarrow> rat" where
  "concat_value s =
     of_nat (digits_val (filter is_digit s)) / 10 ^ length (digits_after_point s)"

definition count_points :: "string \<Rightarrow> nat" where
  "count_points s = length (filter (\<lambda>c. c = CHR ''.'') s)"

text \<open>
  \<^verbatim>\<open>strings.TrimSpace\<close> removes leading and trailing Unicode white space. On the bytes of
  a UTF-8 string, white space is one of the following encodings: the six ASCII characters,
  U+0085, U+00A0, U+1680, U+2000 to U+200A, U+2028, U+2029, U+202F, U+205F and U+3000.
\<close>

definition space_encodings :: "string list" where
  "space_encodings =
     [[CHR 0x09], [CHR 0x0A], [CHR 0x0B], [CHR 0x0C], [CHR 0x0D], [CHR 0x20],
      [CHR 0xC2, CHR 0x85], [CHR 0xC2, CHR 0xA0], [CHR 0xE1, CHR 0x9A, CHR 0x80],
      [CHR 0xE2, CHR 0x80, CHR 0x80], [CHR 0xE2, CHR 0x80, CHR 0x81],
      [CHR 0xE2, CHR 0x80, CHR 0x82], [CHR 0xE2, CHR 0x80, CHR 0x83],
      [CHR 0xE2, CHR 0x80, CHR 0x84], [CHR 0xE2, CHR 0x80, CHR 0x85],
      [CHR 0xE2, CHR 0x80, CHR 0x86], [CHR 0xE2, CHR 0x80, CHR 0x87],
      [CHR 0xE2, CHR 0x80, CHR 0x88], [CHR 0xE2, CHR 0x80, CHR 0x89],
      [CHR 0xE2, CHR 0x80, CHR 0x8A], [CHR 0xE2, CHR 0x80, CHR 0xA8],
      [CHR 0xE2, CHR 0x80, CHR 0xA9], [CHR 0xE2, CHR 0x80, CHR 0xAF],
      [CHR 0xE2, CHR 0x81, CHR 0x9F], [CHR 0xE3, CHR 0x80, CHR 0x80]]"

definition strip_one :: "string list \<Rightarrow> string \<Rightarrow> string option" where
  "strip_one encs s =
     (case find (\<lambda>e. e \<noteq> [] \<and> prefix e s) encs of
        None \<Rightarrow> None
      | Some e \<Rightarrow> Some (drop (length e) s))"

function trim_prefixes :: "string list \<Rightarrow> string \<Rightarrow> string" where
  "trim_prefixes encs s =
     (case strip_one encs s of None \<Rightarrow> s | Some s' \<Rightarrow> trim_prefixes encs s')"
  by pat_completeness auto
termination
proof (relation "measure (\<lambda>(encs, s). length s)")
  show "wf (measure (\<lambda>(encs, s). length s))" by simp
next
  fix encs :: "string list" and s s' :: string
  assume "strip_one encs s = Some s'"
  then obtain e where "find (\<lambda>e. e \<noteq> [] \<and> prefix e s) encs = Some e" and s': "s' = drop (length e) s"
    by (auto simp: strip_one_def split: option.splits)
  then have "e \<noteq> []" and "prefix e s"
    by (auto simp: find_Some_iff)
  then have "length s' < length s"
    unfolding s' by (cases e) (auto simp: prefix_def)
  then show "((encs, s'), (encs, s)) \<in> measure (\<lambda>(encs, s). length s)" by simp
qed

definition TrimSpace :: "string \<Rightarrow> string" where
  "TrimSpace s =
     rev (trim_prefixes (map rev space_encodings) (rev (trim_prefixes space_encodings s)))"

text \<open>
  \<^verbatim>\<open>strings.EqualFold\<close> compares under Unicode simple case folding. The model folds the
  ASCII letters and compares every other byte as it is; the region names of this program
  are ASCII.
\<close>

definition fold_ascii :: "char \<Rightarrow> char" where
  "fold_ascii c =
     (case map_of (zip ''ABCDEFGHIJKLMNOPQRSTUVWXYZ'' ''abcdefghijklmnopqrstuvwxyz'') c of
        Some l \<Rightarrow> l
      | None \<Rightarrow> c)"

definition EqualFold :: "string \<Rightarrow> string \<Rightarrow> bool" where
  "EqualFold s t = (map fold_ascii s = map fold_ascii t)"

section \<open>Time\<close>

text \<open>
  An instant returned by \<^verbatim>\<open>time.Now()\<close> is its Unix time in seconds, an \<^verbatim>\<open>int64\<close>.
  The remainder operator \<^verbatim>\<open>%\<close> of Go truncates towards zero: the result has the sign of
  the dividend.
\<close>

definition go_rem :: "int \<Rightarrow> int \<Rightarrow> int" where
  "go_rem a b = sgn a * (\<bar>a\<bar> mod \<bar>b\<bar>)"

text \<open>
  A research date \<^verbatim>\<open>time.Date(y, m, d, 0, 0, 0, 0, time.UTC)\<close> is its calendar date, and
  \<^verbatim>\<open>Format("2006-01-02")\<close> prints year, month and day in decimal, zero-padded to four, two
  and two digits (years 0 to 9999).
\<close>

record Date =
  year :: nat
  month :: nat
  day :: nat

definition time_Date :: "nat \<Rightarrow> nat \<Rightarrow> nat \<Rightarrow> Date" where
  "time_Date y m d = \<lparr>year = y, month = m, day = d\<rparr>"

definition digit_char :: "nat \<Rightarrow> char" where
  "digit_char n = ''0123456789'' ! (n mod 10)"

definition Format_date :: "Date \<Rightarrow> string" where
  "Format_date t =
     [digit_char (year t div 1000), digit_char (year t div 100),
      digit_char (year t div 10), digit_char (year t)] @ ''-'' @
     [digit_char (month t div 10), digit_char (month t)] @ ''-'' @
     [digit_char (day t div 10), digit_char (day t)]"

section \<open>The world outside the program\<close>

text \<open>
  The errors of the program: \<^verbatim>\<open>all scrapers failed\<close>, \<^verbatim>\<open>region not found in scraped data\<close>,
  \<^verbatim>\<open>no price data found for region R\<close> with the region, an error of the HTTP client, and an
  error of \<^verbatim>\<open>DB.Exec\<close>. A log entry stands for one call of \<^verbatim>\<open>log.Printf\<close>, with the
  arguments of its format.
\<close>

datatype error =
    AllScrapersFailed
  | RegionNotFound
  | NoPriceData string
  | TransportError
  | ExecError

datatype log_entry =
    LogTrying string
  | LogScraperFailed string error
  | LogReturned string nat
  | LogFetchError string
  | LogParseError
  | LogSaveError string error
  | LogSaved string float64 string
  | LogRequest string string string
  | LogHandlerError error

text \<open>
  What \<^verbatim>\<open>http.Get\<close> followed by \<^verbatim>\<open>goquery.NewDocumentFromReader\<close> yields for a URL: a
  transport error, a parse error, or a document, of which the program reads the rows
  matched by \<^verbatim>\<open>table tbody tr\<close>, each as the texts of its \<^verbatim>\<open>td\<close> cells.
\<close>

datatype page = FetchFailed | ParseFailed | Document "string list list"

text \<open>
  Price is the row type of the table \<^verbatim>\<open>prices\<close>; its fields carry the column names,
  prefixed with \<open>row\<close> to keep them apart from the fields of \<open>ScrapedPrice\<close>.
\<close>

record Price =
  row_id :: int
  row_region :: string
  row_price :: float64
  row_unit :: string
  row_source :: string
  row_recorded_at :: string
  row_created_at :: string

text \<open>
  The environment holds everything the program cannot decide: the clock, by the number of
  earlier readings; the network, by the number of earlier requests; the order in which
  \<^verbatim>\<open>range\<close> visits a map; which \<^verbatim>\<open>DB.Exec\<close> calls fail and what \<^verbatim>\<open>datetime('now')\<close> is
  at each; which of the rows tied in an \<^verbatim>\<open>ORDER BY\<close> the database puts first; and the local
  time zone's rendering of an instant with the layout \<^verbatim>\<open>2006-01-02 15:04:05\<close>.
\<close>

record environment =
  unix_time :: "nat \<Rightarrow> int"
  http_get :: "nat \<Rightarrow> string \<Rightarrow> page"
  range_order :: "nat list"
  exec_fails :: "nat \<Rightarrow> bool"
  sql_datetime_now :: "nat \<Rightarrow> string"
  tie_pick :: nat
  local_format :: "int \<Rightarrow> string"

text \<open>
  The state holds what the program changes: the lines written with \<^verbatim>\<open>log.Printf\<close>, the
  number of clock readings, the URLs requested, and the table \<^verbatim>\<open>prices\<close> with its
  \<^verbatim>\<open>AUTOINCREMENT\<close> counter and the number of statements executed.
\<close>

record state =
  logged :: "log_entry list"
  clock_reads :: nat
  requests :: "string list"
  prices_table :: "Price list"
  last_id :: int
  execs :: nat

definition log_Printf :: "log_entry \<Rightarrow> state \<Rightarrow> state" where
  "log_Printf l st = st\<lparr>logged := logged st @ [l]\<rparr>"

definition time_Now :: "environment \<Rightarrow> state \<Rightarrow> int \<times> state" where
  "time_Now env st = (unix_time env (clock_reads st), st\<lparr>clock_reads := Suc (clock_reads st)\<rparr>)"

definition http_Get :: "environment \<Rightarrow> string \<Rightarrow> state \<Rightarrow> page \<times> state" where
  "http_Get env url st =
     (http_get env (length (requests st)) url, st\<lparr>requests := requests st @ [url]\<rparr>)"

text \<open>
  The iteration order of a Go map is not specified. \<open>shuffle\<close> turns any seed into a
  permutation of the entries, and every permutation comes from some seed (lemmas
  \<open>mset_shuffle\<close> and \<open>shuffle_complete\<close> below).
\<close>

fun shuffle :: "nat list \<Rightarrow> 'a list \<Rightarrow> 'a list" where
  "shuffle ks [] = []"
| "shuffle [] xs = xs"
| "shuffle (k # ks) xs =
     (let i = k mod length xs in xs ! i # shuffle ks (take i xs @ drop (Suc i) xs))"

section \<open>Price providers\<close>

record ScrapedPrice =
  Region :: string
  Price :: float64
  Quality :: string
  Source :: string
  ScrapedAt :: int
  SourceURL :: string

text \<open>
  The interface \<^verbatim>\<open>TobaccoScraper\<close>: a value of it carries its two methods. \<^verbatim>\<open>Scrape\<close>
  returns the error (\<open>Inl\<close>) or the records, and the state it leaves.
\<close>

record TobaccoScraper =
  GetName :: string
  Scrape :: "environment \<Rightarrow> state \<Rightarrow> (error + ScrapedPrice list) \<times> state"

subsection \<open>BAPPEBTIScraper\<close>

record BAPPEBTIScraper =
  BaseURL :: string

definition NewBAPPEBTIScraper :: BAPPEBTIScraper where
  "NewBAPPEBTIScraper = \<lparr>BaseURL = ''https://infoharga.bappebti.go.id''\<rparr>"

definition BAPPEBTIScraper_GetName :: "BAPPEBTIScraper \<Rightarrow> string" where
  "BAPPEBTIScraper_GetName s = ''BAPPEBTI Info Harga''"

definition BAPPEBTIScraper_urls :: "BAPPEBTIScraper \<Rightarrow> string list" where
  "BAPPEBTIScraper_urls s =
     [BaseURL s @ ''/harga_komoditi_pedagang?komoditi=TEMBAKAU%20BOYOLALI'',
      BaseURL s @ ''/harga_komoditi_pedagang?komoditi=TEMBAKAU%20BURLEY'',
      BaseURL s @ ''/harga_komoditi_pedagang?komoditi=TEMBAKAU%20KASTURI'']"

text \<open>The callback of \<^verbatim>\<open>Each\<close>, run on one table row given as the texts of its cells.\<close>

definition BAPPEBTIScraper_row ::
  "BAPPEBTIScraper \<Rightarrow> environment \<Rightarrow> string \<Rightarrow> string list \<Rightarrow>
   ScrapedPrice list \<times> state \<Rightarrow> ScrapedPrice list \<times> state" where
  "BAPPEBTIScraper_row s env url cols acc =
     (case acc of (prices, st) \<Rightarrow>
        if length cols < 4 then (prices, st)
        else
          let region = TrimSpace (cols ! 1);
              priceStr = TrimSpace (cols ! 2);
              price = extractPrice priceStr
          in if price > 0
             then (case time_Now env st of (now, st') \<Rightarrow>
                     (prices @ [\<lparr>Region = region, Price = price, Quality = ''Standard'',
                                 Source = BAPPEBTIScraper_GetName s, ScrapedAt = now,
                                 SourceURL = url\<rparr>], st'))
             else (prices, st))"

fun BAPPEBTIScraper_loop ::
  "BAPPEBTIScraper \<Rightarrow> environment \<Rightarrow> string list \<Rightarrow>
   ScrapedPrice list \<times> state \<Rightarrow> ScrapedPrice list \<times> state" where
  "BAPPEBTIScraper_loop s env [] acc = acc"
| "BAPPEBTIScraper_loop s env (url # urls) acc =
     (case acc of (prices, st) \<Rightarrow>
        (case http_Get env url st of
           (FetchFailed, st1) \<Rightarrow>
             BAPPEBTIScraper_loop s env urls (prices, log_Printf (LogFetchError url) st1)
         | (ParseFailed, st1) \<Rightarrow>
             BAPPEBTIScraper_loop s env urls (prices, log_Printf LogParseError st1)
         | (Document rows, st1) \<Rightarrow>
             BAPPEBTIScraper_loop s env urls
               (foldl (\<lambda>a cols. BAPPEBTIScraper_row s env url cols a) (prices, st1) rows)))"

definition BAPPEBTIScraper_Scrape ::
  "BAPPEBTIScraper \<Rightarrow> environment \<Rightarrow> state \<Rightarrow> (error + ScrapedPrice list) \<times> state" where
  "BAPPEBTIScraper_Scrape s env st =
     (case BAPPEBTIScraper_loop s env (BAPPEBTIScraper_urls s) ([], st) of
        (prices, st') \<Rightarrow> (Inr prices, st'))"

definition BAPPEBTI :: "BAPPEBTIScraper \<Rightarrow> TobaccoScraper" where
  "BAPPEBTI s = \<lparr>GetName = BAPPEBTIScraper_GetName s, Scrape = BAPPEBTIScraper_Scrape s\<rparr>"

subsection \<open>NewsPortalScraper\<close>

record NewsPortalScraper =
  Keywords :: "string list"

definition NewNewsPortalScraper :: NewsPortalScraper where
  "NewNewsPortalScraper = \<lparr>Keywords = [''harga tembakau'', ''tobacco price'']\<rparr>"

definition NewsPortalScraper_GetName :: "NewsPortalScraper \<Rightarrow> string" where
  "NewsPortalScraper_GetName s = ''News Portal Scraper''"

definition NewsPortalScraper_Scrape ::
  "NewsPortalScraper \<Rightarrow> environment \<Rightarrow> state \<Rightarrow> (error + ScrapedPrice list) \<times> state" where
  "NewsPortalScraper_Scrape s env st =
     (let searchURL =
            ''https://www.google.com/search?q=harga+tembakau+hari+ini+jember+temanggung&tbm=nws''
      in case http_Get env searchURL st of
           (FetchFailed, st1) \<Rightarrow> (Inl TransportError, st1)
         | (resp, st1) \<Rightarrow> (Inr [], st1))"

definition NewsPortal :: "NewsPortalScraper \<Rightarrow> TobaccoScraper" where
  "NewsPortal s = \<lparr>GetName = NewsPortalScraper_GetName s, Scrape = NewsPortalScraper_Scrape s\<rparr>"

subsection \<open>MockScraperWithRealData\<close>

text \<open>
  The field \<^verbatim>\<open>Source\<close> of \<^verbatim>\<open>PriceResearch\<close> is named \<open>ResearchSource\<close> here, apart from the
  field \<open>Source\<close> of \<open>ScrapedPrice\<close>. The map \<^verbatim>\<open>LastResearch\<close> is the list of its entries.
\<close>

record PriceResearch =
  BasePrice :: float64
  DateChecked :: Date
  ResearchSource :: string
  Notes :: string

record MockScraperWithRealData =
  LastResearch :: "(string \<times> PriceResearch) list"

definition NewMockScraperWithRealData :: MockScraperWithRealData where
  "NewMockScraperWithRealData =
     \<lparr>LastResearch =
        [(''Jember'',
          \<lparr>BasePrice = 85000, DateChecked = time_Date 2024 9 15,
           ResearchSource = ''DPRD Jember Report'',
           Notes = ''Harga tengkulak, kualitas standard''\<rparr>),
         (''Temanggung'',
          \<lparr>BasePrice = 150000, DateChecked = time_Date 2024 9 18,
           ResearchSource = ''InfoPublik + ANTARA News'',
           Notes = ''Kualitas F, panen 2024, cuaca baik''\<rparr>),
         (''Lombok'',
          \<lparr>BasePrice = 78000, DateChecked = time_Date 2024 8 1,
           ResearchSource = ''Market Survey'',
           Notes = ''Tembakau Lombok, kualitas standard''\<rparr>),
         (''Klaten'',
          \<lparr>BasePrice = 88000, DateChecked = time_Date 2024 7 15,
           ResearchSource = ''Local Market'',
           Notes = ''Estimasi berdasarkan harga regional''\<rparr>),
         (''Pamekasan'',
          \<lparr>BasePrice = 95000, DateChecked = time_Date 2024 8 20,
           ResearchSource = ''Madura Market Survey'',
           Notes = ''Tembakau Madura premium''\<rparr>)]\<rparr>"

definition MockScraperWithRealData_GetName :: "MockScraperWithRealData \<Rightarrow> string" where
  "MockScraperWithRealData_GetName s = ''Real Data Research + Market Simulation''"

text \<open>
  The price of one region at the clock reading \<open>now\<close>:
  \<^verbatim>\<open>variation := (time.Now().Unix() % 5) - 2\<close>,
  \<^verbatim>\<open>dailyFactor := 1.0 + (float64(variation) / 100.0)\<close>,
  \<^verbatim>\<open>currentPrice := research.BasePrice * dailyFactor\<close>.
\<close>

definition variation_at :: "int \<Rightarrow> int" where
  "variation_at now = go_rem now 5 - 2"

definition dailyFactor :: "int \<Rightarrow> float64" where
  "dailyFactor variation = fl64 (1 + fl64 (fl64 (of_int variation) / 100))"

definition currentPrice :: "PriceResearch \<Rightarrow> int \<Rightarrow> float64" where
  "currentPrice research now = fl64 (BasePrice research * dailyFactor (variation_at now))"

fun MockScraperWithRealData_loop ::
  "environment \<Rightarrow> (string \<times> PriceResearch) list \<Rightarrow>
   ScrapedPrice list \<times> state \<Rightarrow> ScrapedPrice list \<times> state" where
  "MockScraperWithRealData_loop env [] acc = acc"
| "MockScraperWithRealData_loop env ((region, research) # rest) acc =
     (case acc of (prices, st) \<Rightarrow>
        (case time_Now env st of (now, st1) \<Rightarrow>
           (case time_Now env st1 of (scrapedAt, st2) \<Rightarrow>
              MockScraperWithRealData_loop env rest
                (prices @
                   [\<lparr>Region = region, Price = currentPrice research now,
                     Quality = ''Standard'',
                     Source = ResearchSource research @ '' (Last checked: '' @
                              Format_date (DateChecked research) @ '')'',
                     ScrapedAt = scrapedAt,
                     SourceURL = ''Manual Research + Market Data''\<rparr>],
                 st2))))"

definition MockScraperWithRealData_Scrape ::
  "MockScraperWithRealData \<Rightarrow> environment \<Rightarrow> state \<Rightarrow>
   (error + ScrapedPrice list) \<times> state" where
  "MockScraperWithRealData_Scrape s env st =
     (case MockScraperWithRealData_loop env (shuffle (range_order env) (LastResearch s)) ([], st) of
        (prices, st') \<Rightarrow> (Inr prices, st'))"

definition Mock :: "MockScraperWithRealData \<Rightarrow> TobaccoScraper" where
  "Mock s =
     \<lparr>GetName = MockScraperWithRealData_GetName s, Scrape = MockScraperWithRealData_Scrape s\<rparr>"

section \<open>ScraperManager\<close>

record ScraperManager =
  Scrapers :: "TobaccoScraper list"

definition NewScraperManager :: ScraperManager where
  "NewScraperManager =
     \<lparr>Scrapers = [BAPPEBTI NewBAPPEBTIScraper, Mock NewMockScraperWithRealData]\<rparr>"

text \<open>
  The loop of \<^verbatim>\<open>ScrapeAll\<close> over the scrapers still to try, carrying \<^verbatim>\<open>allPrices\<close>; the
  \<^verbatim>\<open>break\<close> is the branch without a recursive call.
\<close>

fun ScrapeAll_loop ::
  "environment \<Rightarrow> TobaccoScraper list \<Rightarrow> ScrapedPrice list \<times> state \<Rightarrow>
   ScrapedPrice list \<times> state" where
  "ScrapeAll_loop env [] acc = acc"
| "ScrapeAll_loop env (scraper # rest) acc =
     (case acc of (allPrices, st) \<Rightarrow>
        (case Scrape scraper env (log_Printf (LogTrying (GetName scraper)) st) of
           (Inl err, st1) \<Rightarrow>
             ScrapeAll_loop env rest
               (allPrices, log_Printf (LogScraperFailed (GetName scraper) err) st1)
         | (Inr prices, st1) \<Rightarrow>
             if length prices > 0
             then (allPrices @ prices,
                   log_Printf (LogReturned (GetName scraper) (length prices)) st1)
             else ScrapeAll_loop env rest (allPrices, st1)))"

definition ScrapeAll ::
  "ScraperManager \<Rightarrow> environment \<Rightarrow> state \<Rightarrow> (error + ScrapedPrice list) \<times> state" where
  "ScrapeAll sm env st =
     (case ScrapeAll_loop env (Scrapers sm) ([], st) of
        (allPrices, st') \<Rightarrow>
          if length allPrices = 0 then (Inl AllScrapersFailed, st') else (Inr allPrices, st'))"

section \<open>Persistence\<close>

text \<open>
  \<^verbatim>\<open>DB.Exec\<close> of the statement
  \<^verbatim>\<open>INSERT INTO prices (region, price, unit, source, recorded_at) VALUES (?, ?, ?, ?, ?)\<close>:
  it fails and leaves the table as it is, or it appends one row, whose \<^verbatim>\<open>id\<close> is the next
  value of the \<^verbatim>\<open>AUTOINCREMENT\<close> counter and whose \<^verbatim>\<open>created_at\<close> is the column default
  \<^verbatim>\<open>datetime('now')\<close>.
\<close>

definition DB_Exec_insert ::
  "environment \<Rightarrow> string \<Rightarrow> float64 \<Rightarrow> string \<Rightarrow> string \<Rightarrow> string \<Rightarrow> state \<Rightarrow>
   error option \<times> state" where
  "DB_Exec_insert env reg pr un src rec st =
     (let k = execs st; st1 = st\<lparr>execs := Suc k\<rparr>
      in if exec_fails env k then (Some ExecError, st1)
         else (None,
               st1\<lparr>prices_table := prices_table st1 @
                      [\<lparr>row_id = last_id st1 + 1, row_region = reg, row_price = pr,
                        row_unit = un, row_source = src, row_recorded_at = rec,
                        row_created_at = sql_datetime_now env k\<rparr>],
                    last_id := last_id st1 + 1\<rparr>))"

definition SaveScrapedPrice :: "environment \<Rightarrow> ScrapedPrice \<Rightarrow> state \<Rightarrow> error option \<times> state" where
  "SaveScrapedPrice env data st =
     DB_Exec_insert env
       (Region data)
       (Price data)
       ''kg''
       (Source data @ '' (Scraped: '' @ Quality data @ '')'')
       (local_format env (ScrapedAt data))
       st"

text \<open>The loop of \<^verbatim>\<open>AutoFetchPricesFromScraper\<close> over the accepted records.\<close>

fun AutoFetchPricesFromScraper_loop :: "environment \<Rightarrow> ScrapedPrice list \<Rightarrow> state \<Rightarrow> state" where
  "AutoFetchPricesFromScraper_loop env [] st = st"
| "AutoFetchPricesFromScraper_loop env (price # rest) st =
     (case SaveScrapedPrice env price st of
        (Some err, st1) \<Rightarrow>
          AutoFetchPricesFromScraper_loop env rest
            (log_Printf (LogSaveError (Region price) err) st1)
      | (None, st1) \<Rightarrow>
          AutoFetchPricesFromScraper_loop env rest
            (log_Printf (LogSaved (Region price) (Price price) (Source price)) st1))"

definition AutoFetchPricesFromScraper :: "environment \<Rightarrow> state \<Rightarrow> error option \<times> state" where
  "AutoFetchPricesFromScraper env st =
     (case ScrapeAll NewScraperManager env st of
        (Inl err, st1) \<Rightarrow> (Some err, st1)
      | (Inr prices, st1) \<Rightarrow> (None, AutoFetchPricesFromScraper_loop env prices st1))"

section \<open>Reading prices\<close>

text \<open>
  \<^verbatim>\<open>SELECT ... FROM prices WHERE region = ? ORDER BY created_at DESC LIMIT 1\<close>. The column
  \<^verbatim>\<open>created_at\<close> is text, compared byte by byte. The statement orders by no other column:
  among the rows of the region whose \<^verbatim>\<open>created_at\<close> is greatest, the one returned is the
  database's choice, \<open>tie_pick\<close> of the environment. The JSON text returned is
  represented by the row it encodes.
\<close>

definition where_region :: "Price list \<Rightarrow> string \<Rightarrow> Price list" where
  "where_region tbl region = filter (\<lambda>p. row_region p = region) tbl"

definition first_by_created_at_desc :: "Price list \<Rightarrow> Price list" where
  "first_by_created_at_desc rows =
     filter (\<lambda>p. list_all (\<lambda>q. row_created_at q \<le> row_created_at p) rows) rows"

definition GetLatestPriceJSON :: "environment \<Rightarrow> string \<Rightarrow> state \<Rightarrow> error + Price" where
  "GetLatestPriceJSON env region st =
     (let rows = where_region (prices_table st) region;
          ties = first_by_created_at_desc rows
      in if rows = [] then Inl (NoPriceData region)
         else Inr (ties ! (tie_pick env mod length ties)))"

definition GetScrapedPriceJSON ::
  "environment \<Rightarrow> string \<Rightarrow> state \<Rightarrow> (error + ScrapedPrice) \<times> state" where
  "GetScrapedPriceJSON env region st =
     (case ScrapeAll NewScraperManager env st of
        (Inl err, st1) \<Rightarrow> (Inl err, st1)
      | (Inr prices, st1) \<Rightarrow>
          (case find (\<lambda>price. EqualFold (Region price) region) prices of
             Some price \<Rightarrow> (Inr price, st1)
           | None \<Rightarrow> (Inl RegionNotFound, st1)))"

section \<open>The handler of /harga/current\<close>

record request =
  Method :: string
  URL_Path :: string
  URL_RawQuery :: string
  query_region :: string

datatype chunk = JSON_Price Price | JSON_ScrapedPrice ScrapedPrice | ErrorText error

text \<open>
  The \<^verbatim>\<open>http.ResponseWriter\<close>: the content type set in its header, the status code
  (\<open>0\<close> until one is written) and what was written to the body.
\<close>

record ResponseWriter =
  ContentType :: string
  StatusCode :: nat
  Body :: "chunk list"

type_synonym HandlerFunc = "request \<Rightarrow> ResponseWriter \<times> state \<Rightarrow> ResponseWriter \<times> state"

definition WriteHeader :: "nat \<Rightarrow> ResponseWriter \<Rightarrow> ResponseWriter" where
  "WriteHeader code w = (if StatusCode w = 0 then w\<lparr>StatusCode := code\<rparr> else w)"

definition Write :: "chunk \<Rightarrow> ResponseWriter \<Rightarrow> ResponseWriter" where
  "Write c w = (WriteHeader 200 w)\<lparr>Body := Body w @ [c]\<rparr>"

definition respondError :: "error \<Rightarrow> nat \<Rightarrow> ResponseWriter \<Rightarrow> ResponseWriter" where
  "respondError err statusCode w =
     Write (ErrorText err)
       (WriteHeader statusCode (w\<lparr>ContentType := ''text/plain; charset=utf-8''\<rparr>))"

definition getRegionOrDefault :: "string \<Rightarrow> string" where
  "getRegionOrDefault region = (if region = [] then ''Jember'' else region)"

definition withLogging :: "HandlerFunc \<Rightarrow> HandlerFunc" where
  "withLogging next = (\<lambda>r (w, st).
     next r (w, log_Printf (LogRequest (Method r) (URL_Path r) (URL_RawQuery r)) st))"

text \<open>No function of this model panics, so \<^verbatim>\<open>withRecovery\<close> only calls the next handler.\<close>

definition withRecovery :: "HandlerFunc \<Rightarrow> HandlerFunc" where
  "withRecovery next = (\<lambda>r ws. next r ws)"

definition withJSONContentType :: "HandlerFunc \<Rightarrow> HandlerFunc" where
  "withJSONContentType next = (\<lambda>r (w, st). next r (w\<lparr>ContentType := ''application/json''\<rparr>, st))"

definition withErrorHandling ::
  "(request \<Rightarrow> ResponseWriter \<times> state \<Rightarrow> error option \<times> ResponseWriter \<times> state) \<Rightarrow> HandlerFunc" where
  "withErrorHandling handler = (\<lambda>r ws.
     case handler r ws of
       (Some err, w', st') \<Rightarrow> (respondError err 500 w', log_Printf (LogHandlerError err) st')
     | (None, w', st') \<Rightarrow> (w', st'))"

text \<open>
  \<^verbatim>\<open>chain\<close> wraps the handler in the middlewares from the last to the first, so the first
  middleware is the outermost.
\<close>

definition chain :: "HandlerFunc \<Rightarrow> (HandlerFunc \<Rightarrow> HandlerFunc) list \<Rightarrow> HandlerFunc" where
  "chain handler middlewares = foldr (\<lambda>m h. m h) middlewares handler"

definition GetCurrentPriceHandler :: "environment \<Rightarrow> HandlerFunc" where
  "GetCurrentPriceHandler env =
     chain
       (withErrorHandling (\<lambda>r (w, st).
          let region = getRegionOrDefault (query_region r)
          in case GetLatestPriceJSON env region st of
               Inl err \<Rightarrow> (Some err, w, st)
             | Inr jsonData \<Rightarrow> (None, Write (JSON_Price jsonData) w, st)))
       [withJSONContentType, withLogging, withRecovery]"

section \<open>Notions of the specification\<close>

text \<open>
  A provider is passed over when it returns an error or no record. \<open>passed_over\<close> tries
  the providers of a list in order, each in the state its predecessors left: it is the
  state after the last one when every provider was passed over, and \<open>None\<close> as soon as
  one returns a record.
\<close>

fun passed_over :: "environment \<Rightarrow> TobaccoScraper list \<Rightarrow> state \<Rightarrow> state option" where
  "passed_over env [] st = Some st"
| "passed_over env (scraper # rest) st =
     (case Scrape scraper env (log_Printf (LogTrying (GetName scraper)) st) of
        (Inl err, st1) \<Rightarrow>
          passed_over env rest (log_Printf (LogScraperFailed (GetName scraper) err) st1)
      | (Inr prices, st1) \<Rightarrow> if prices = [] then passed_over env rest st1 else None)"

section \<open>Sample worlds\<close>

text \<open>
  Concrete inputs on which the theorems below are run. In \<open>sample_env\<close> the clock reads
  2024-11-30 08:20:04 UTC, every request fails, \<^verbatim>\<open>range\<close> visits a map in the order of its
  literal, and the second \<^verbatim>\<open>DB.Exec\<close> fails. In \<open>sample_live_env\<close> the first URL of the
  live source answers with a table of three rows. In \<open>sample_store\<close> the table holds four
  rows inserted by hand, two of them for Jember within the same second.
\<close>

definition sample_env :: environment where
  "sample_env =
     \<lparr>unix_time = (\<lambda>k. 1732954804),
      http_get = (\<lambda>k url. FetchFailed),
      range_order = [],
      exec_fails = (\<lambda>k. k = 1),
      sql_datetime_now = (\<lambda>k. ''2024-11-30 08:20:04''),
      tie_pick = 0,
      local_format = (\<lambda>t. ''2024-11-30 15:20:04'')\<rparr>"

definition sample_live_env :: environment where
  "sample_live_env =
     sample_env\<lparr>http_get := (\<lambda>k url.
        if k = 0
        then Document [[''1'', '' Boyolali '', ''Rp 85,000.50'', ''kg''],
                       [''2'', ''Solo'', ''n/a'', ''kg''],
                       [''3'', ''Klaten'']]
        else FetchFailed)\<rparr>"

definition sample_state :: state where
  "sample_state =
     \<lparr>logged = [], clock_reads = 0, requests = [], prices_table = [], last_id = 0, execs = 0\<rparr>"

definition sample_rows :: "Price list" where
  "sample_rows =
     [\<lparr>row_id = 1, row_region = ''Jember'', row_price = 90000, row_unit = ''kg'',
       row_source = ''Manual'', row_recorded_at = ''2024-11-29 10:00:00'',
       row_created_at = ''2024-11-29 10:00:00''\<rparr>,
      \<lparr>row_id = 2, row_region = ''Jember'', row_price = 91000, row_unit = ''kg'',
       row_source = ''Manual'', row_recorded_at = ''2024-11-30 08:20:04'',
       row_created_at = ''2024-11-30 08:20:04''\<rparr>,
      \<lparr>row_id = 3, row_region = ''Jember'', row_price = 92000, row_unit = ''kg'',
       row_source = ''Manual'', row_recorded_at = ''2024-11-30 08:20:04'',
       row_created_at = ''2024-11-30 08:20:04''\<rparr>,
      \<lparr>row_id = 4, row_region = ''Klaten'', row_price = 88000, row_unit = ''kg'',
       row_source = ''Manual'', row_recorded_at = ''2024-11-30 08:20:05'',
       row_created_at = ''2024-11-30 08:20:05''\<rparr>]"

definition sample_store :: state where
  "sample_store = sample_state\<lparr>prices_table := sample_rows, last_id := 4, execs := 4\<rparr>"

definition sample_request :: request where
  "sample_request =
     \<lparr>Method = ''GET'', URL_Path = ''/harga/current'', URL_RawQuery = ''region=Jember'',
      query_region = ''Jember''\<rparr>"

definition new_ResponseWriter :: ResponseWriter where
  "new_ResponseWriter = \<lparr>ContentType = [], StatusCode = 0, Body = []\<rparr>"


section \<open>Price extraction\<close>

lemma foldl_digits_acc:
  "foldl (\<lambda>acc c. 10 * acc + digit_of c) a ds = a * 10 ^ length ds + digits_val ds"
proof (induction ds arbitrary: a)
  case Nil
  show ?case by (simp add: digits_val_def)
next
  case (Cons d ds)
  have "foldl (\<lambda>acc c. 10 * acc + digit_of c) a (d # ds) =
        (10 * a + digit_of d) * 10 ^ length ds + digits_val ds"
    using Cons.IH [of "10 * a + digit_of d"] by simp
  moreover have "digits_val (d # ds) = digit_of d * 10 ^ length ds + digits_val ds"
    using Cons.IH [of "digit_of d"] by (simp add: digits_val_def)
  ultimately show ?case by (simp add: algebra_simps)
qed

lemma digits_val_append:
  "digits_val (xs @ ys) = digits_val xs * 10 ^ length ys + digits_val ys"
  using foldl_digits_acc [of "digits_val xs" ys] by (simp add: digits_val_def)

lemma not_digit_point: "\<not> is_digit (CHR ''.'')"
  by (simp add: is_digit_def)

lemma decimal_syntax_digits:
  assumes "list_all is_digit ds" "ds \<noteq> []"
  shows "decimal_syntax ds = Some (of_nat (digits_val ds))"
proof -
  have tw: "takeWhile is_digit ds = ds" and dw: "dropWhile is_digit ds = []"
    using assms(1) by (simp_all add: list_all_iff)
  show ?thesis using assms(2) by (simp add: decimal_syntax_def tw dw)
qed

lemma decimal_syntax_point:
  assumes "list_all is_digit a" "list_all is_digit b" "a \<noteq> [] \<or> b \<noteq> []"
  shows "decimal_syntax (a @ CHR ''.'' # b) =
         Some (of_nat (digits_val (a @ b)) / 10 ^ length b)"
proof -
  have tw: "takeWhile is_digit (a @ CHR ''.'' # b) = a"
    using assms(1) by (simp add: list_all_iff takeWhile_append2 [of a] not_digit_point)
  have dw: "dropWhile is_digit (a @ CHR ''.'' # b) = CHR ''.'' # b"
    using assms(1) by (simp add: list_all_iff dropWhile_append2 [of a] not_digit_point)
  have "(of_nat (digits_val a) :: rat) + of_nat (digits_val b) / 10 ^ length b =
        of_nat (digits_val (a @ b)) / 10 ^ length b"
    by (simp add: digits_val_append add_divide_distrib)
  then show ?thesis
    using assms(2,3) by (simp add: decimal_syntax_def tw dw)
qed

lemma single_point_split:
  assumes "count_points s = 1"
  shows "\<exists>a b. s = a @ CHR ''.'' # b \<and> CHR ''.'' \<notin> set a \<and> CHR ''.'' \<notin> set b"
proof -
  have "CHR ''.'' \<in> set s"
  proof (rule ccontr)
    assume "CHR ''.'' \<notin> set s"
    then have "filter (\<lambda>c. c = CHR ''.'') s = []" by (auto simp: filter_empty_conv)
    with assms show False by (simp add: count_points_def)
  qed
  then obtain a b where s: "s = a @ CHR ''.'' # b" and a: "CHR ''.'' \<notin> set a"
    by (meson split_list_first)
  have "filter (\<lambda>c. c = CHR ''.'') a = []" using a by (auto simp: filter_empty_conv)
  with assms s have "filter (\<lambda>c. c = CHR ''.'') b = []" by (simp add: count_points_def)
  then have "CHR ''.'' \<notin> set b" by (auto simp: filter_empty_conv)
  with s a show ?thesis by blast
qed

lemma dropWhile_until:
  "c \<notin> set a \<Longrightarrow> dropWhile (\<lambda>x. x \<noteq> c) (a @ c # b) = c # b"
  by (induction a) auto

lemma cleaned_no_point:
  assumes "CHR ''.'' \<notin> set s"
  shows "cleaned s = filter is_digit s"
  using assms by (induction s) (auto simp: cleaned_def)

lemma cleaned_split:
  assumes "CHR ''.'' \<notin> set a" "CHR ''.'' \<notin> set b"
  shows "cleaned (a @ CHR ''.'' # b) = filter is_digit a @ CHR ''.'' # filter is_digit b"
  using cleaned_no_point [OF assms(1)] cleaned_no_point [OF assms(2)]
  by (simp add: cleaned_def not_digit_point)

lemma decimal_syntax_cleaned:
  assumes "\<exists>c \<in> set s. is_digit c" "count_points s \<le> 1"
  shows "decimal_syntax (cleaned s) = Some (concat_value s)"
proof (cases "count_points s = 0")
  case True
  then have np: "CHR ''.'' \<notin> set s"
    by (auto simp: count_points_def filter_empty_conv)
  then have dw: "dropWhile (\<lambda>c. c \<noteq> CHR ''.'') s = []" by auto
  have cv: "concat_value s = of_nat (digits_val (filter is_digit s))"
    by (simp add: concat_value_def digits_after_point_def dw)
  have "filter is_digit s \<noteq> []" using assms(1) by (simp add: filter_empty_conv)
  then show ?thesis
    using decimal_syntax_digits [of "filter is_digit s"] cv cleaned_no_point [OF np]
    by (simp add: list_all_iff)
next
  case False
  with assms(2) have "count_points s = 1" by simp
  then obtain a b where s: "s = a @ CHR ''.'' # b"
    and a: "CHR ''.'' \<notin> set a" and b: "CHR ''.'' \<notin> set b"
    using single_point_split by blast
  have dw: "dropWhile (\<lambda>c. c \<noteq> CHR ''.'') s = CHR ''.'' # b"
    using a by (simp add: s dropWhile_until)
  have cv: "concat_value s =
      of_nat (digits_val (filter is_digit a @ filter is_digit b)) / 10 ^ length (filter is_digit b)"
    by (simp add: concat_value_def digits_after_point_def dw not_digit_point) (simp add: s not_digit_point)
  have ne: "filter is_digit a \<noteq> [] \<or> filter is_digit b \<noteq> []"
    using assms(1) by (auto simp: s filter_empty_conv not_digit_point)
  show ?thesis
    using decimal_syntax_point [of "filter is_digit a" "filter is_digit b"] ne cv
      cleaned_split [OF a b]
    by (simp add: s list_all_iff)
qed

lemma digits_val_replicate_zero:
  "digits_val (d # replicate n (CHR ''0'')) = digit_of d * 10 ^ n"
proof -
  have z: "digits_val (replicate n (CHR ''0'')) = 0"
    by (induction n) (simp_all add: digits_val_def digit_of_def foldl_digits_acc)
  have "digits_val ([d] @ replicate n (CHR ''0'')) = digits_val [d] * 10 ^ n + 0"
    unfolding digits_val_append z by simp
  then show ?thesis by (simp add: digits_val_def)
qed

lemma one_zeros_digits: "list_all is_digit (CHR ''1'' # replicate n (CHR ''0''))"
  by (simp add: list_all_iff is_digit_def)

lemma cleaned_digits: "list_all is_digit ds \<Longrightarrow> cleaned ds = ds"
  by (simp add: cleaned_def list_all_iff)

lemma concat_value_digits:
  assumes "list_all is_digit ds"
  shows "concat_value ds = of_nat (digits_val ds)"
proof -
  have "CHR ''.'' \<notin> set ds" using assms by (auto simp: list_all_iff not_digit_point)
  then have dw: "dropWhile (\<lambda>c. c \<noteq> CHR ''.'') ds = []" by auto
  have fd: "filter is_digit ds = ds" using assms by (simp add: list_all_iff)
  show ?thesis by (simp add: concat_value_def digits_after_point_def dw fd)
qed

lemma one_zeros_val: "digits_val (CHR ''1'' # replicate n (CHR ''0'')) = 10 ^ n"
  by (simp add: digits_val_replicate_zero digit_of_def)

lemma extractPrice_one_zeros:
  "extractPrice (CHR ''1'' # replicate n (CHR ''0'')) =
     (if float64_overflow \<le> 10 ^ n then 0 else fl64 (10 ^ n))"
proof -
  let ?s = "CHR ''1'' # replicate n (CHR ''0'')"
  have "decimal_syntax ?s = Some (10 ^ n)"
    using decimal_syntax_digits [OF one_zeros_digits, of n] by (simp add: one_zeros_val)
  then show ?thesis
    by (simp add: extractPrice_def ParseFloat_def cleaned_digits [OF one_zeros_digits])
qed

lemma concat_value_one_zeros:
  "concat_value (CHR ''1'' # replicate n (CHR ''0'')) = 10 ^ n"
  using concat_value_digits [OF one_zeros_digits, of n] by (simp add: one_zeros_val)

lemma overflow_below_1e309: "float64_overflow \<le> 10 ^ 309"
  by (simp add: float64_overflow_def)

text \<open>
  Claim C5, as stated: for every raw price string with digits and at most one decimal
  point, \<open>extractPrice\<close> returns exactly the number formed by its digits and its point.
  It fails on a price of 310 digits, the digit 1 and 309 zeros: the number is beyond the
  range of float64, \<open>ParseFloat\<close> reports a range error, and the result is 0.
\<close>

theorem extractPrice_exact_counterexample:
  "is_digit (hd (CHR ''1'' # replicate 309 (CHR ''0'')))
   \<and> count_points (CHR ''1'' # replicate 309 (CHR ''0'')) \<le> 1
   \<and> extractPrice (CHR ''1'' # replicate 309 (CHR ''0''))
       \<noteq> concat_value (CHR ''1'' # replicate 309 (CHR ''0''))"
proof -
  have d: "is_digit (hd (CHR ''1'' # replicate 309 (CHR ''0'')))"
    by (simp add: is_digit_def)
  have "filter (\<lambda>c. c = CHR ''.'') (CHR ''1'' # replicate n (CHR ''0'')) = []" for n
    by (simp add: filter_empty_conv)
  then have p: "count_points (CHR ''1'' # replicate 309 (CHR ''0'')) \<le> 1"
    unfolding count_points_def by (simp only: list.size)
  have "extractPrice (CHR ''1'' # replicate 309 (CHR ''0'')) = 0"
    unfolding extractPrice_one_zeros using overflow_below_1e309 by (simp only: if_True)
  moreover have "concat_value (CHR ''1'' # replicate 309 (CHR ''0'')) \<noteq> 0"
    unfolding concat_value_one_zeros by simp
  ultimately have "extractPrice (CHR ''1'' # replicate 309 (CHR ''0''))
       \<noteq> concat_value (CHR ''1'' # replicate 309 (CHR ''0''))"
    by (simp only:)
  with d p show ?thesis by blast
qed

text \<open>
  Claim C5, amended: for every raw price string that contains a digit and at most one
  decimal point, \<open>extractPrice\<close> returns the float64 nearest to the number formed by its
  digits and its point in their original order, and returns 0 when that number is at or
  beyond the overflow threshold of float64.
\<close>

theorem extractPrice_nearest_float64:
  assumes "\<exists>c \<in> set s. is_digit c" and "count_points s \<le> 1"
  shows "extractPrice s =
         (if float64_overflow \<le> concat_value s then 0 else fl64 (concat_value s))"
  using decimal_syntax_cleaned [OF assms] by (simp add: extractPrice_def ParseFloat_def)

text \<open>
  Claim C5, witness: the cell text \<open>Rp 85,000.50\<close> has digits and one point, and its price
  is 85000.5, a float64.
\<close>

theorem extractPrice_nearest_float64_witness:
  "(\<exists>c \<in> set ''Rp 85,000.50''. is_digit c) \<and> count_points ''Rp 85,000.50'' \<le> 1
   \<and> extractPrice ''Rp 85,000.50'' = 170001 / 2"
proof -
  have h1: "\<exists>c \<in> set ''Rp 85,000.50''. is_digit c" by (simp add: is_digit_def)
  have h2: "count_points ''Rp 85,000.50'' \<le> 1" by (simp add: count_points_def)
  have v: "concat_value ''Rp 85,000.50'' = 170001 / 2"
    by (simp add: concat_value_def digits_after_point_def digits_val_def digit_of_def is_digit_def)
  have nov: "\<not> float64_overflow \<le> 170001 / 2" by (simp add: float64_overflow_def)
  have f: "fl64 (170001 / 2) = 170001 / 2" by code_simp
  show ?thesis
    using extractPrice_nearest_float64 [OF h1 h2] h1 h2
    by (simp only: v nov f if_False simp_thms)
qed

section \<open>The prices of the simulated provider\<close>

text \<open>
  On the research dataset, and for each of the nine values that the variation can take,
  the three float64 operations of the source round to the exact product.
\<close>

lemma price_85000_m6: "fl64 (85000 * dailyFactor (- 6)) = 79900"
  by code_simp

lemma price_150000_m6: "fl64 (150000 * dailyFactor (- 6)) = 141000"
  by code_simp

lemma price_78000_m6: "fl64 (78000 * dailyFactor (- 6)) = 73320"
  by code_simp

lemma price_88000_m6: "fl64 (88000 * dailyFactor (- 6)) = 82720"
  by code_simp

lemma price_95000_m6: "fl64 (95000 * dailyFactor (- 6)) = 89300"
  by code_simp

lemma price_85000_m5: "fl64 (85000 * dailyFactor (- 5)) = 80750"
  by code_simp

lemma price_150000_m5: "fl64 (150000 * dailyFactor (- 5)) = 142500"
  by code_simp

lemma price_78000_m5: "fl64 (78000 * dailyFactor (- 5)) = 74100"
  by code_simp

lemma price_88000_m5: "fl64 (88000 * dailyFactor (- 5)) = 83600"
  by code_simp

lemma price_95000_m5: "fl64 (95000 * dailyFactor (- 5)) = 90250"
  by code_simp

lemma price_85000_m4: "fl64 (85000 * dailyFactor (- 4)) = 81600"
  by code_simp

lemma price_150000_m4: "fl64 (150000 * dailyFactor (- 4)) = 144000"
  by code_simp

lemma price_78000_m4: "fl64 (78000 * dailyFactor (- 4)) = 74880"
  by code_simp

lemma price_88000_m4: "fl64 (88000 * dailyFactor (- 4)) = 84480"
  by code_simp

lemma price_95000_m4: "fl64 (95000 * dailyFactor (- 4)) = 91200"
  by code_simp

lemma price_85000_m3: "fl64 (85000 * dailyFactor (- 3)) = 82450"
  by code_simp

lemma price_150000_m3: "fl64 (150000 * dailyFactor (- 3)) = 145500"
  by code_simp

lemma price_78000_m3: "fl64 (78000 * dailyFactor (- 3)) = 75660"
  by code_simp

lemma price_88000_m3: "fl64 (88000 * dailyFactor (- 3)) = 85360"
  by code_simp

lemma price_95000_m3: "fl64 (95000 * dailyFactor (- 3)) = 92150"
  by code_simp

lemma price_85000_m2: "fl64 (85000 * dailyFactor (- 2)) = 83300"
  by code_simp

lemma price_150000_m2: "fl64 (150000 * dailyFactor (- 2)) = 147000"
  by code_simp

lemma price_78000_m2: "fl64 (78000 * dailyFactor (- 2)) = 76440"
  by code_simp

lemma price_88000_m2: "fl64 (88000 * dailyFactor (- 2)) = 86240"
  by code_simp

lemma price_95000_m2: "fl64 (95000 * dailyFactor (- 2)) = 93100"
  by code_simp

lemma price_85000_m1: "fl64 (85000 * dailyFactor (- 1)) = 84150"
  by code_simp

lemma price_150000_m1: "fl64 (150000 * dailyFactor (- 1)) = 148500"
  by code_simp

lemma price_78000_m1: "fl64 (78000 * dailyFactor (- 1)) = 77220"
  by code_simp

lemma price_88000_m1: "fl64 (88000 * dailyFactor (- 1)) = 87120"
  by code_simp

lemma price_95000_m1: "fl64 (95000 * dailyFactor (- 1)) = 94050"
  by code_simp

lemma price_85000_p0: "fl64 (85000 * dailyFactor (0)) = 85000"
  by code_simp

lemma price_150000_p0: "fl64 (150000 * dailyFactor (0)) = 150000"
  by code_simp

lemma price_78000_p0: "fl64 (78000 * dailyFactor (0)) = 78000"
  by code_simp

lemma price_88000_p0: "fl64 (88000 * dailyFactor (0)) = 88000"
  by code_simp

lemma price_95000_p0: "fl64 (95000 * dailyFactor (0)) = 95000"
  by code_simp

lemma price_85000_p1: "fl64 (85000 * dailyFactor (1)) = 85850"
  by code_simp

lemma price_150000_p1: "fl64 (150000 * dailyFactor (1)) = 151500"
  by code_simp

lemma price_78000_p1: "fl64 (78000 * dailyFactor (1)) = 78780"
  by code_simp

lemma price_88000_p1: "fl64 (88000 * dailyFactor (1)) = 88880"
  by code_simp

lemma price_95000_p1: "fl64 (95000 * dailyFactor (1)) = 95950"
  by code_simp

lemma price_85000_p2: "fl64 (85000 * dailyFactor (2)) = 86700"
  by code_simp

lemma price_150000_p2: "fl64 (150000 * dailyFactor (2)) = 153000"
  by code_simp

lemma price_78000_p2: "fl64 (78000 * dailyFactor (2)) = 79560"
  by code_simp

lemma price_88000_p2: "fl64 (88000 * dailyFactor (2)) = 89760"
  by code_simp

lemma price_95000_p2: "fl64 (95000 * dailyFactor (2)) = 96900"
  by code_simp

lemmas mock_price_table = price_85000_m6 price_150000_m6 price_78000_m6 price_88000_m6
  price_95000_m6 price_85000_m5 price_150000_m5 price_78000_m5 price_88000_m5 price_95000_m5
  price_85000_m4 price_150000_m4 price_78000_m4 price_88000_m4 price_95000_m4 price_85000_m3
  price_150000_m3 price_78000_m3 price_88000_m3 price_95000_m3 price_85000_m2 price_150000_m2
  price_78000_m2 price_88000_m2 price_95000_m2 price_85000_m1 price_150000_m1 price_78000_m1
  price_88000_m1 price_95000_m1 price_85000_p0 price_150000_p0 price_78000_p0 price_88000_p0
  price_95000_p0 price_85000_p1 price_150000_p1 price_78000_p1 price_88000_p1 price_95000_p1
  price_85000_p2 price_150000_p2 price_78000_p2 price_88000_p2 price_95000_p2

lemma go_rem_5_range: "go_rem now 5 \<in> {-4, -3, -2, -1, 0, 1, 2, 3, 4}"
proof -
  have small: "m \<in> {0, 1, 2, 3, 4}" if "0 \<le> m" "m < 5" for m :: int
    using that by auto
  have "\<bar>now\<bar> mod 5 \<in> {0, 1, 2, 3, 4}" by (rule small) simp_all
  then show ?thesis by (auto simp: go_rem_def sgn_if)
qed

lemma go_rem_5_nonneg: "0 \<le> now \<Longrightarrow> go_rem now 5 \<in> {0, 1, 2, 3, 4}"
  using go_rem_5_range [of now] by (auto simp: go_rem_def sgn_if)

lemma variation_range: "variation_at now \<in> {-6, -5, -4, -3, -2, -1, 0, 1, 2}"
  using go_rem_5_range [of now] by (auto simp: variation_at_def)

lemma base_prices:
  "(region, research) \<in> set (LastResearch NewMockScraperWithRealData) \<Longrightarrow>
   BasePrice research \<in> {85000, 150000, 78000, 88000, 95000}"
  by (auto simp: NewMockScraperWithRealData_def)

lemma fl64_price_exact:
  assumes "v \<in> {-6, -5, -4, -3, -2, -1, 0, 1, 2}"
    and "b \<in> {85000, 150000, 78000, 88000, 95000}"
  shows "fl64 (b * dailyFactor v) = b * (100 + of_int v) / 100"
  using assms by (elim insertE emptyE) (simp_all add: mock_price_table)

lemma currentPrice_exact:
  assumes "(region, research) \<in> set (LastResearch NewMockScraperWithRealData)"
  shows "currentPrice research now = BasePrice research * (100 + of_int (variation_at now)) / 100"
  unfolding currentPrice_def
  using fl64_price_exact [OF variation_range base_prices [OF assms]] .

section \<open>The simulated provider\<close>

lemma mset_shuffle: "mset (shuffle ks xs) = mset xs"
proof (induction ks xs rule: shuffle.induct)
  case (1 ks)
  show ?case by simp
next
  case (2 x xs)
  show ?case by simp
next
  case (3 k ks x xs)
  let ?ys = "x # xs"
  let ?i = "k mod length ?ys"
  have i: "?i < length ?ys" by simp
  have "mset ?ys = mset (take ?i ?ys @ ?ys ! ?i # drop (Suc ?i) ?ys)"
    using id_take_nth_drop [OF i] by simp
  also have "\<dots> = mset (?ys ! ?i # shuffle ks (take ?i ?ys @ drop (Suc ?i) ?ys))"
    using "3.IH" [of ?i] by simp
  finally show ?case by (simp add: Let_def)
qed

lemma set_shuffle: "set (shuffle ks xs) = set xs"
  using mset_shuffle [of ks xs] by (metis set_mset_mset)

lemma shuffle_complete: "mset ys = mset xs \<Longrightarrow> \<exists>ks. shuffle ks xs = ys"
proof (induction ys arbitrary: xs)
  case Nil
  then have "xs = []" by simp
  then show ?case by simp
next
  case (Cons y ys)
  then have "y \<in> set xs" by (metis list.set_intros(1) set_mset_mset)
  then obtain i where i: "i < length xs" and y: "xs ! i = y"
    by (auto simp: in_set_conv_nth)
  let ?rest = "take i xs @ drop (Suc i) xs"
  have "mset xs = mset ?rest + {#y#}"
    using id_take_nth_drop [OF i] y by (metis add_mset_add_single mset.simps(2) mset_append union_mset_add_mset_right)
  with Cons.prems have "mset ys = mset ?rest" by simp
  from Cons.IH [OF this] obtain ks where ks: "shuffle ks ?rest = ys" by blast
  obtain x xs' where xs: "xs = x # xs'" using i by (cases xs) auto
  have "shuffle (i # ks) xs = y # ys"
    using i y ks unfolding xs by (simp add: Let_def)
  then show ?case by blast
qed

lemma MockScraperWithRealData_loop_regions:
  "MockScraperWithRealData_loop env es (acc, st) = (ps, st') \<Longrightarrow>
   map Region ps = map Region acc @ map fst es"
proof (induction es arbitrary: acc st)
  case Nil
  then show ?case by simp
next
  case (Cons e es)
  obtain region research where e: "e = (region, research)" by (cases e)
  from Cons.prems show ?case
    unfolding e by (simp add: time_Now_def) (drule Cons.IH, simp)
qed

lemma MockScraperWithRealData_loop_records:
  "MockScraperWithRealData_loop env es (acc, st) = (ps, st') \<Longrightarrow> p \<in> set ps \<Longrightarrow>
   p \<in> set acc \<or>
   (\<exists>research k. (Region p, research) \<in> set es
      \<and> Price p = currentPrice research (unix_time env k)
      \<and> Source p = ResearchSource research @ '' (Last checked: '' @
                      Format_date (DateChecked research) @ '')''
      \<and> Quality p = ''Standard'')"
proof (induction es arbitrary: acc st)
  case Nil
  then show ?case by simp
next
  case (Cons e es)
  obtain region research where e: "e = (region, research)" by (cases e)
  define r where "r = \<lparr>Region = region, Price = currentPrice research (unix_time env (clock_reads st)),
             Quality = ''Standard'',
             Source = ResearchSource research @ '' (Last checked: '' @
                      Format_date (DateChecked research) @ '')'',
             ScrapedAt = unix_time env (Suc (clock_reads st)),
             SourceURL = ''Manual Research + Market Data''\<rparr>"
  from Cons.prems(1) have
    "MockScraperWithRealData_loop env es (acc @ [r], st\<lparr>clock_reads := Suc (Suc (clock_reads st))\<rparr>) = (ps, st')"
    unfolding e r_def by (simp add: time_Now_def)
  from Cons.IH [OF this Cons.prems(2)]
  consider "p \<in> set acc" | "p = r"
    | "\<exists>research k. (Region p, research) \<in> set es
      \<and> Price p = currentPrice research (unix_time env k)
      \<and> Source p = ResearchSource research @ '' (Last checked: '' @
                      Format_date (DateChecked research) @ '')''
      \<and> Quality p = ''Standard''"
    by auto
  then show ?case
  proof cases
    case 1
    then show ?thesis by simp
  next
    case 2
    have "(Region p, research) \<in> set (e # es)" by (simp add: 2 r_def e)
    moreover have "Price p = currentPrice research (unix_time env (clock_reads st))"
      by (simp add: 2 r_def)
    moreover have "Source p = ResearchSource research @ '' (Last checked: '' @
                      Format_date (DateChecked research) @ '')''"
      by (simp add: 2 r_def)
    moreover have "Quality p = ''Standard''" by (simp add: 2 r_def)
    ultimately show ?thesis by blast
  next
    case 3
    then obtain research' k where "(Region p, research') \<in> set es"
      "Price p = currentPrice research' (unix_time env k)"
      "Source p = ResearchSource research' @ '' (Last checked: '' @
                      Format_date (DateChecked research') @ '')''"
      "Quality p = ''Standard''" by blast
    then have "(Region p, research') \<in> set (e # es)" by simp
    with \<open>Price p = _\<close> \<open>Source p = _\<close> \<open>Quality p = _\<close> show ?thesis by blast
  qed
qed

lemma MockScraperWithRealData_Scrape_result:
  "\<exists>ps st'. MockScraperWithRealData_Scrape s env st = (Inr ps, st')
     \<and> mset (map Region ps) = mset (map fst (LastResearch s))
     \<and> (\<forall>p \<in> set ps. \<exists>research k. (Region p, research) \<in> set (LastResearch s)
            \<and> Price p = currentPrice research (unix_time env k)
            \<and> Source p = ResearchSource research @ '' (Last checked: '' @
                            Format_date (DateChecked research) @ '')''
            \<and> Quality p = ''Standard'')"
proof -
  let ?es = "shuffle (range_order env) (LastResearch s)"
  obtain ps st' where run: "MockScraperWithRealData_loop env ?es ([], st) = (ps, st')"
    by (cases "MockScraperWithRealData_loop env ?es ([], st)")
  have "map Region ps = map fst ?es"
    using MockScraperWithRealData_loop_regions [OF run] by simp
  then have "mset (map Region ps) = mset (map fst (LastResearch s))"
    by (simp add: mset_shuffle)
  moreover have "\<exists>research k. (Region p, research) \<in> set (LastResearch s)
            \<and> Price p = currentPrice research (unix_time env k)
            \<and> Source p = ResearchSource research @ '' (Last checked: '' @
                            Format_date (DateChecked research) @ '')''
            \<and> Quality p = ''Standard''" if "p \<in> set ps" for p
    using MockScraperWithRealData_loop_records [OF run that] by (simp add: set_shuffle)
  ultimately show ?thesis
    using run by (simp add: MockScraperWithRealData_Scrape_def)
qed

lemma sample_mock_batch_from:
  "MockScraperWithRealData_Scrape NewMockScraperWithRealData sample_env st =
     (Inr [\<lparr>Region = ''Jember'', Price = 86700, Quality = ''Standard'',
            Source = ''DPRD Jember Report (Last checked: 2024-09-15)'',
            ScrapedAt = 1732954804, SourceURL = ''Manual Research + Market Data''\<rparr>,
           \<lparr>Region = ''Temanggung'', Price = 153000, Quality = ''Standard'',
            Source = ''InfoPublik + ANTARA News (Last checked: 2024-09-18)'',
            ScrapedAt = 1732954804, SourceURL = ''Manual Research + Market Data''\<rparr>,
           \<lparr>Region = ''Lombok'', Price = 79560, Quality = ''Standard'',
            Source = ''Market Survey (Last checked: 2024-08-01)'',
            ScrapedAt = 1732954804, SourceURL = ''Manual Research + Market Data''\<rparr>,
           \<lparr>Region = ''Klaten'', Price = 89760, Quality = ''Standard'',
            Source = ''Local Market (Last checked: 2024-07-15)'',
            ScrapedAt = 1732954804, SourceURL = ''Manual Research + Market Data''\<rparr>,
           \<lparr>Region = ''Pamekasan'', Price = 96900, Quality = ''Standard'',
            Source = ''Madura Market Survey (Last checked: 2024-08-20)'',
            ScrapedAt = 1732954804, SourceURL = ''Manual Research + Market Data''\<rparr>],
      st\<lparr>clock_reads := clock_reads st + 10\<rparr>)"
  by (simp add: MockScraperWithRealData_Scrape_def NewMockScraperWithRealData_def sample_env_def
      time_Now_def currentPrice_def variation_at_def go_rem_def
      Format_date_def time_Date_def digit_char_def mock_price_table)

lemma sample_mock_batch:
  "MockScraperWithRealData_Scrape NewMockScraperWithRealData sample_env sample_state =
     (Inr [\<lparr>Region = ''Jember'', Price = 86700, Quality = ''Standard'',
            Source = ''DPRD Jember Report (Last checked: 2024-09-15)'',
            ScrapedAt = 1732954804, SourceURL = ''Manual Research + Market Data''\<rparr>,
           \<lparr>Region = ''Temanggung'', Price = 153000, Quality = ''Standard'',
            Source = ''InfoPublik + ANTARA News (Last checked: 2024-09-18)'',
            ScrapedAt = 1732954804, SourceURL = ''Manual Research + Market Data''\<rparr>,
           \<lparr>Region = ''Lombok'', Price = 79560, Quality = ''Standard'',
            Source = ''Market Survey (Last checked: 2024-08-01)'',
            ScrapedAt = 1732954804, SourceURL = ''Manual Research + Market Data''\<rparr>,
           \<lparr>Region = ''Klaten'', Price = 89760, Quality = ''Standard'',
            Source = ''Local Market (Last checked: 2024-07-15)'',
            ScrapedAt = 1732954804, SourceURL = ''Manual Research + Market Data''\<rparr>,
           \<lparr>Region = ''Pamekasan'', Price = 96900, Quality = ''Standard'',
            Source = ''Madura Market Survey (Last checked: 2024-08-20)'',
            ScrapedAt = 1732954804, SourceURL = ''Manual Research + Market Data''\<rparr>],
      sample_state\<lparr>clock_reads := 10\<rparr>)"
  using sample_mock_batch_from [of sample_state] by (simp add: sample_state_def)

lemma last_checked_sublist:
  "sublist ''Last checked:'' (src @ '' (Last checked: '' @ date @ '')'')"
proof -
  have "src @ '' (Last checked: '' @ date @ '')'' =
        (src @ '' ('') @ ''Last checked:'' @ ('' '' @ date @ '')'')"
    by simp
  then show ?thesis unfolding sublist_def by blast
qed

lemma research_band:
  assumes "(region, research) \<in> set (LastResearch NewMockScraperWithRealData)"
    and "0 \<le> now"
  shows "\<bar>currentPrice research now - BasePrice research\<bar> \<le> BasePrice research * 2 / 100"
proof -
  have v: "variation_at now \<in> {-2, -1, 0, 1, 2}"
    using go_rem_5_nonneg [OF assms(2)] by (auto simp: variation_at_def)
  show ?thesis
    unfolding currentPrice_exact [OF assms(1)]
    using v base_prices [OF assms(1)] by (elim insertE emptyE) simp_all
qed

lemma research_positive:
  assumes "(region, research) \<in> set (LastResearch NewMockScraperWithRealData)"
  shows "0 < currentPrice research now"
  unfolding currentPrice_exact [OF assms]
  using variation_range [of now] base_prices [OF assms] by (elim insertE emptyE) simp_all

lemma research_regions:
  "map fst (LastResearch NewMockScraperWithRealData) =
     [''Jember'', ''Temanggung'', ''Lombok'', ''Klaten'', ''Pamekasan'']"
  by (simp add: NewMockScraperWithRealData_def)

text \<open>
  Claim C3, amended: whatever the live source did, \<open>Scrape\<close> of the fallback
  provider never fails and returns exactly one record per region of its research dataset,
  five records; the source of each is the region's original source followed by a space and
  \<open>(Last checked: YYYY-MM-DD)\<close> with the date checked, so it contains \<open>Last checked:\<close>;
  and, the clock not reading before the Unix epoch, each price is within 2 percent of
  the region's base price.
\<close>

theorem MockScraper_Scrape_one_record_per_region:
  "\<exists>ps st'.
     MockScraperWithRealData_Scrape NewMockScraperWithRealData env st = (Inr ps, st')
     \<and> length ps = 5
     \<and> mset (map Region ps) =
         mset [''Jember'', ''Temanggung'', ''Lombok'', ''Klaten'', ''Pamekasan'']
     \<and> (\<forall>p \<in> set ps. \<exists>research.
            (Region p, research) \<in> set (LastResearch NewMockScraperWithRealData)
            \<and> Source p = ResearchSource research @ '' (Last checked: '' @
                            Format_date (DateChecked research) @ '')''
            \<and> sublist ''Last checked:'' (Source p)
            \<and> ((\<forall>k. 0 \<le> unix_time env k) \<longrightarrow>
                 \<bar>Price p - BasePrice research\<bar> \<le> BasePrice research * 2 / 100))"
proof -
  obtain ps st' where run:
    "MockScraperWithRealData_Scrape NewMockScraperWithRealData env st = (Inr ps, st')"
    and regions: "mset (map Region ps) = mset (map fst (LastResearch NewMockScraperWithRealData))"
    and records: "\<forall>p \<in> set ps. \<exists>research k.
            (Region p, research) \<in> set (LastResearch NewMockScraperWithRealData)
            \<and> Price p = currentPrice research (unix_time env k)
            \<and> Source p = ResearchSource research @ '' (Last checked: '' @
                            Format_date (DateChecked research) @ '')''
            \<and> Quality p = ''Standard''"
    using MockScraperWithRealData_Scrape_result [of NewMockScraperWithRealData env st] by blast
  have m: "mset (map Region ps) =
         mset [''Jember'', ''Temanggung'', ''Lombok'', ''Klaten'', ''Pamekasan'']"
    using regions unfolding research_regions .
  have "size (mset (map Region ps)) = 5" unfolding m by simp
  then have len: "length ps = 5" by simp
  have each: "\<exists>research.
            (Region p, research) \<in> set (LastResearch NewMockScraperWithRealData)
            \<and> Source p = ResearchSource research @ '' (Last checked: '' @
                            Format_date (DateChecked research) @ '')''
            \<and> sublist ''Last checked:'' (Source p)
            \<and> ((\<forall>k. 0 \<le> unix_time env k) \<longrightarrow>
                 \<bar>Price p - BasePrice research\<bar> \<le> BasePrice research * 2 / 100)"
    if "p \<in> set ps" for p
  proof -
    from records that obtain research k where
      r: "(Region p, research) \<in> set (LastResearch NewMockScraperWithRealData)"
      and pr: "Price p = currentPrice research (unix_time env k)"
      and src: "Source p = ResearchSource research @ '' (Last checked: '' @
                            Format_date (DateChecked research) @ '')''"
      by blast
    have "sublist ''Last checked:'' (Source p)"
      unfolding src by (rule last_checked_sublist)
    moreover have "\<bar>Price p - BasePrice research\<bar> \<le> BasePrice research * 2 / 100"
      if "\<forall>k. 0 \<le> unix_time env k"
      unfolding pr using research_band [OF r] that by blast
    ultimately show ?thesis using r src by blast
  qed
  show ?thesis using run len m each by blast
qed

text \<open>
  Claim C3, as stated, gives the source the format of the original source immediately
  followed by \<open>(Last checked: ...)\<close>. The record of Jember in the sample world has a
  space between the two.
\<close>

theorem MockScraper_source_format_counterexample:
  "Region (hd (projr (fst (MockScraperWithRealData_Scrape NewMockScraperWithRealData
                             sample_env sample_state))))
     = fst (hd (LastResearch NewMockScraperWithRealData))
   \<and> Source (hd (projr (fst (MockScraperWithRealData_Scrape NewMockScraperWithRealData
                               sample_env sample_state))))
       \<noteq> ResearchSource (snd (hd (LastResearch NewMockScraperWithRealData))) @
         ''(Last checked: '' @
         Format_date (DateChecked (snd (hd (LastResearch NewMockScraperWithRealData)))) @ '')''
   \<and> Source (hd (projr (fst (MockScraperWithRealData_Scrape NewMockScraperWithRealData
                               sample_env sample_state))))
       = ''DPRD Jember Report (Last checked: 2024-09-15)''"
  unfolding sample_mock_batch
  by (simp add: NewMockScraperWithRealData_def Format_date_def time_Date_def digit_char_def)

text \<open>
  Claim C3, witness: in the sample world the clock reads after the epoch; the batch has
  five records, the first is Jember's at 86700, within 2 percent of 85000, and its source
  contains \<open>Last checked:\<close>.
\<close>

theorem MockScraper_Scrape_one_record_per_region_witness:
  "0 \<le> unix_time sample_env 0
   \<and> length (projr (fst (MockScraperWithRealData_Scrape NewMockScraperWithRealData
                            sample_env sample_state))) = 5
   \<and> sublist ''Last checked:''
        (Source (hd (projr (fst (MockScraperWithRealData_Scrape NewMockScraperWithRealData
                                   sample_env sample_state)))))
   \<and> \<bar>Price (hd (projr (fst (MockScraperWithRealData_Scrape NewMockScraperWithRealData
                                  sample_env sample_state)))) - 85000\<bar> \<le> 85000 * 2 / 100
   \<and> map Source (projr (fst (MockScraperWithRealData_Scrape NewMockScraperWithRealData
                            sample_env sample_state))) =
       [''DPRD Jember Report (Last checked: 2024-09-15)'',
        ''InfoPublik + ANTARA News (Last checked: 2024-09-18)'',
        ''Market Survey (Last checked: 2024-08-01)'',
        ''Local Market (Last checked: 2024-07-15)'',
        ''Madura Market Survey (Last checked: 2024-08-20)'']
   \<and> map Price (projr (fst (MockScraperWithRealData_Scrape NewMockScraperWithRealData
                            sample_env sample_state))) =
       [86700, 153000, 79560, 89760, 96900]"
proof -
  let ?ps = "projr (fst (MockScraperWithRealData_Scrape NewMockScraperWithRealData
                            sample_env sample_state))"
  have clock: "\<forall>k. 0 \<le> unix_time sample_env k" by (simp add: sample_env_def)
  have first: "hd ?ps \<in> set ?ps" and reg: "Region (hd ?ps) = ''Jember''"
    unfolding sample_mock_batch by simp_all
  from MockScraper_Scrape_one_record_per_region [of sample_env sample_state]
  obtain research where len: "length ?ps = 5"
    and r: "(Region (hd ?ps), research) \<in> set (LastResearch NewMockScraperWithRealData)"
    and sub: "sublist ''Last checked:'' (Source (hd ?ps))"
    and band: "\<bar>Price (hd ?ps) - BasePrice research\<bar> \<le> BasePrice research * 2 / 100"
    using clock first by fastforce
  have "BasePrice research = 85000"
    using r unfolding reg by (auto simp: NewMockScraperWithRealData_def)
  with band have b: "\<bar>Price (hd ?ps) - 85000\<bar> \<le> 85000 * 2 / 100" by simp
  have vals: "map Source ?ps =
       [''DPRD Jember Report (Last checked: 2024-09-15)'',
        ''InfoPublik + ANTARA News (Last checked: 2024-09-18)'',
        ''Market Survey (Last checked: 2024-08-01)'',
        ''Local Market (Last checked: 2024-07-15)'',
        ''Madura Market Survey (Last checked: 2024-08-20)'']"
    "map Price ?ps = [86700, 153000, 79560, 89760, 96900]"
    unfolding sample_mock_batch by simp_all
  show ?thesis using clock len sub b vals by blast
qed






section \<open>The coordinator\<close>

lemma ScrapeAll_loop_passed_over:
  "passed_over env scs st = Some st' \<Longrightarrow>
   ScrapeAll_loop env (scs @ rest) (acc, st) = ScrapeAll_loop env rest (acc, st')"
proof (induction scs arbitrary: st)
  case Nil
  then show ?case by simp
next
  case (Cons sc scs)
  obtain r st1 where run: "Scrape sc env (log_Printf (LogTrying (GetName sc)) st) = (r, st1)"
    by (cases "Scrape sc env (log_Printf (LogTrying (GetName sc)) st)")
  show ?case
  proof (cases r)
    case (Inl err)
    with Cons.prems run
    have "passed_over env scs (log_Printf (LogScraperFailed (GetName sc) err) st1) = Some st'"
      by simp
    from Cons.IH [OF this] show ?thesis using run Inl by simp
  next
    case (Inr prices)
    with Cons.prems run have e: "prices = []" and p: "passed_over env scs st1 = Some st'"
      by (auto split: if_splits)
    from Cons.IH [OF p] show ?thesis using run Inr e by simp
  qed
qed

lemma ScrapeAll_loop_not_passed_over:
  "passed_over env scs st = None \<Longrightarrow>
   \<exists>ps st'. ps \<noteq> [] \<and> ScrapeAll_loop env scs (acc, st) = (acc @ ps, st')"
proof (induction scs arbitrary: st)
  case Nil
  then show ?case by simp
next
  case (Cons sc scs)
  obtain r st1 where run: "Scrape sc env (log_Printf (LogTrying (GetName sc)) st) = (r, st1)"
    by (cases "Scrape sc env (log_Printf (LogTrying (GetName sc)) st)")
  show ?case
  proof (cases r)
    case (Inl err)
    with Cons.prems run
    have "passed_over env scs (log_Printf (LogScraperFailed (GetName sc) err) st1) = None"
      by simp
    from Cons.IH [OF this] show ?thesis using run Inl by simp
  next
    case (Inr prices)
    show ?thesis
    proof (cases "prices = []")
      case True
      with Cons.prems run Inr have "passed_over env scs st1 = None" by simp
      from Cons.IH [OF this] show ?thesis using run Inr True by simp
    next
      case False
      then show ?thesis using run Inr by simp
    qed
  qed
qed

text \<open>
  Claim C1: when the providers before some provider of the list are all passed over, and
  that provider then returns at least one record, \<open>ScrapeAll\<close> returns exactly the
  records of that provider, the first to succeed in priority order. The records of no
  other provider are merged in, and the providers after it are not invoked: neither the
  result nor the state left behind, one log line after the state the winner left, depends
  on them.
\<close>

theorem ScrapeAll_first_success:
  assumes "passed_over env before st = Some st1"
    and "Scrape winner env (log_Printf (LogTrying (GetName winner)) st1) = (Inr ps, st2)"
    and "ps \<noteq> []"
  shows "ScrapeAll \<lparr>Scrapers = before @ winner # after\<rparr> env st =
           (Inr ps, log_Printf (LogReturned (GetName winner) (length ps)) st2)"
  using assms ScrapeAll_loop_passed_over [OF assms(1), of "winner # after" "[]"]
  by (simp add: ScrapeAll_def)

text \<open>
  Claim C2: \<open>ScrapeAll\<close> returns the error \<open>all scrapers failed\<close> if and only if every
  provider, tried in order, returns an error or no record; it returns no other error; and
  the records it returns without an error are never an empty sequence.
\<close>

theorem ScrapeAll_fails_iff:
  "(fst (ScrapeAll sm env st) = Inl AllScrapersFailed) = (passed_over env (Scrapers sm) st \<noteq> None)
   \<and> (\<forall>e. fst (ScrapeAll sm env st) = Inl e \<longrightarrow> e = AllScrapersFailed)
   \<and> (\<forall>ps. fst (ScrapeAll sm env st) = Inr ps \<longrightarrow> ps \<noteq> [])"
proof (cases "passed_over env (Scrapers sm) st")
  case None
  from ScrapeAll_loop_not_passed_over [OF this, of "[]"]
  obtain ps st' where "ps \<noteq> []" "ScrapeAll_loop env (Scrapers sm) ([], st) = (ps, st')"
    by auto
  then show ?thesis using None by (simp add: ScrapeAll_def)
next
  case (Some st')
  from ScrapeAll_loop_passed_over [OF this, of "[]" "[]"]
  have "ScrapeAll_loop env (Scrapers sm) ([], st) = ([], st')" by simp
  then show ?thesis using Some by (simp add: ScrapeAll_def)
qed

text \<open>
  Claim C1, witness: with every request failing, the news portal provider returns an
  error, the fallback provider then returns its five records, and the live provider
  placed after it is not invoked: the only request made is the one of the news portal.
\<close>

theorem ScrapeAll_first_success_witness:
  "passed_over sample_env [NewsPortal NewNewsPortalScraper] sample_state \<noteq> None
   \<and> map Region (projr (fst (ScrapeAll
         \<lparr>Scrapers = [NewsPortal NewNewsPortalScraper, Mock NewMockScraperWithRealData,
                      BAPPEBTI NewBAPPEBTIScraper]\<rparr> sample_env sample_state))) =
       [''Jember'', ''Temanggung'', ''Lombok'', ''Klaten'', ''Pamekasan'']
   \<and> requests (snd (ScrapeAll
         \<lparr>Scrapers = [NewsPortal NewNewsPortalScraper, Mock NewMockScraperWithRealData,
                      BAPPEBTI NewBAPPEBTIScraper]\<rparr> sample_env sample_state)) =
       [''https://www.google.com/search?q=harga+tembakau+hari+ini+jember+temanggung&tbm=nws'']"
proof -
  define st1 where "st1 =
    log_Printf (LogScraperFailed ''News Portal Scraper'' TransportError)
      (snd (http_Get sample_env
         ''https://www.google.com/search?q=harga+tembakau+hari+ini+jember+temanggung&tbm=nws''
         (log_Printf (LogTrying ''News Portal Scraper'') sample_state)))"
  have po: "passed_over sample_env [NewsPortal NewNewsPortalScraper] sample_state = Some st1"
    by (simp add: st1_def NewsPortal_def NewsPortalScraper_Scrape_def
        NewsPortalScraper_GetName_def http_Get_def sample_env_def)
  obtain ps st2 where run:
    "Scrape (Mock NewMockScraperWithRealData) sample_env
       (log_Printf (LogTrying (GetName (Mock NewMockScraperWithRealData))) st1) = (Inr ps, st2)"
    and ps: "map Region ps = [''Jember'', ''Temanggung'', ''Lombok'', ''Klaten'', ''Pamekasan'']"
    and st2: "requests st2 = requests st1"
    by (simp add: Mock_def sample_mock_batch_from log_Printf_def)
  have ne: "ps \<noteq> []" using ps by auto
  have rq: "requests st1 =
      [''https://www.google.com/search?q=harga+tembakau+hari+ini+jember+temanggung&tbm=nws'']"
    by (simp add: st1_def http_Get_def log_Printf_def sample_state_def)
  from ScrapeAll_first_success [OF po run ne, of "[BAPPEBTI NewBAPPEBTIScraper]"]
  show ?thesis using po ps st2 rq by (simp add: log_Printf_def)
qed

text \<open>
  Claim C2, witness: with every request failing, a coordinator that holds the news portal
  provider alone passes it over and fails with \<open>all scrapers failed\<close>.
\<close>

theorem ScrapeAll_fails_iff_witness:
  "passed_over sample_env (Scrapers \<lparr>Scrapers = [NewsPortal NewNewsPortalScraper]\<rparr>)
     sample_state \<noteq> None
   \<and> fst (ScrapeAll \<lparr>Scrapers = [NewsPortal NewNewsPortalScraper]\<rparr> sample_env sample_state)
       = Inl AllScrapersFailed"
proof -
  have po: "passed_over sample_env (Scrapers \<lparr>Scrapers = [NewsPortal NewNewsPortalScraper]\<rparr>)
     sample_state \<noteq> None"
    by (simp add: NewsPortal_def NewsPortalScraper_Scrape_def
        NewsPortalScraper_GetName_def http_Get_def sample_env_def)
  with ScrapeAll_fails_iff [of "\<lparr>Scrapers = [NewsPortal NewNewsPortalScraper]\<rparr>"
      sample_env sample_state]
  show ?thesis by blast
qed

section \<open>Accepted prices\<close>

lemma trim1: "TrimSpace '' Boyolali '' = ''Boyolali''"
  by (simp add: TrimSpace_def strip_one_def space_encodings_def)

lemma trim2: "TrimSpace ''Rp 85,000.50'' = ''Rp 85,000.50''"
  by (simp add: TrimSpace_def strip_one_def space_encodings_def)

lemma trim3: "TrimSpace ''n/a'' = ''n/a''"
  by (simp add: TrimSpace_def strip_one_def space_encodings_def)

lemma trim4: "TrimSpace ''Solo'' = ''Solo''"
  by (simp add: TrimSpace_def strip_one_def space_encodings_def)

lemma fl64_sample: "fl64 (170001 / 2) = 170001 / 2"
  by code_simp

lemma ex1: "extractPrice ''Rp 85,000.50'' = 170001 / 2"
  by (simp add: extractPrice_def ParseFloat_def cleaned_def decimal_syntax_def is_digit_def
      digits_val_def digit_of_def float64_overflow_def fl64_sample)

lemma ex2: "extractPrice ''n/a'' = 0"
  by (simp add: extractPrice_def ParseFloat_def cleaned_def decimal_syntax_def is_digit_def)


lemma BAPPEBTIScraper_row_positive:
  assumes "\<forall>p \<in> set prices. 0 < Price p"
    and "BAPPEBTIScraper_row s env url cols (prices, st) = (prices', st')"
  shows "\<forall>p \<in> set prices'. 0 < Price p"
  using assms
  by (auto simp: BAPPEBTIScraper_row_def Let_def time_Now_def split: if_splits)

lemma BAPPEBTIScraper_rows_positive:
  "\<forall>p \<in> set prices. 0 < Price p \<Longrightarrow>
   foldl (\<lambda>a cols. BAPPEBTIScraper_row s env url cols a) (prices, st) rows = (prices', st') \<Longrightarrow>
   \<forall>p \<in> set prices'. 0 < Price p"
proof (induction rows arbitrary: prices st)
  case Nil
  then show ?case by simp
next
  case (Cons cols rows)
  obtain p1 s1 where step: "BAPPEBTIScraper_row s env url cols (prices, st) = (p1, s1)"
    by (cases "BAPPEBTIScraper_row s env url cols (prices, st)")
  from Cons.prems(2) have "foldl (\<lambda>a cols. BAPPEBTIScraper_row s env url cols a) (p1, s1) rows = (prices', st')"
    by (simp add: step)
  from Cons.IH [OF BAPPEBTIScraper_row_positive [OF Cons.prems(1) step] this]
  show ?case .
qed

lemma BAPPEBTIScraper_loop_positive:
  "\<forall>p \<in> set prices. 0 < Price p \<Longrightarrow>
   BAPPEBTIScraper_loop s env urls (prices, st) = (prices', st') \<Longrightarrow>
   \<forall>p \<in> set prices'. 0 < Price p"
proof (induction urls arbitrary: prices st)
  case Nil
  then show ?case by simp
next
  case (Cons url urls)
  obtain page st1 where get: "http_Get env url st = (page, st1)"
    by (cases "http_Get env url st")
  show ?case
  proof (cases page)
    case FetchFailed
    with Cons.prems(2) get have
      "BAPPEBTIScraper_loop s env urls (prices, log_Printf (LogFetchError url) st1) = (prices', st')"
      by simp
    from Cons.IH [OF Cons.prems(1) this] show ?thesis .
  next
    case ParseFailed
    with Cons.prems(2) get have
      "BAPPEBTIScraper_loop s env urls (prices, log_Printf LogParseError st1) = (prices', st')"
      by simp
    from Cons.IH [OF Cons.prems(1) this] show ?thesis .
  next
    case (Document rows)
    obtain p1 s1 where rows:
      "foldl (\<lambda>a cols. BAPPEBTIScraper_row s env url cols a) (prices, st1) rows = (p1, s1)"
      by (cases "foldl (\<lambda>a cols. BAPPEBTIScraper_row s env url cols a) (prices, st1) rows")
    with Cons.prems(2) get Document have
      "BAPPEBTIScraper_loop s env urls (p1, s1) = (prices', st')"
      by simp
    from Cons.IH [OF BAPPEBTIScraper_rows_positive [OF Cons.prems(1) rows] this]
    show ?thesis .
  qed
qed

lemma BAPPEBTIScraper_Scrape_positive:
  assumes "BAPPEBTIScraper_Scrape s env st = (Inr prices, st')"
  shows "\<forall>p \<in> set prices. 0 < Price p"
proof -
  from assms have "BAPPEBTIScraper_loop s env (BAPPEBTIScraper_urls s) ([], st) = (prices, st')"
    by (auto simp: BAPPEBTIScraper_Scrape_def split: prod.splits)
  from BAPPEBTIScraper_loop_positive [OF _ this] show ?thesis by simp
qed

lemma MockScraper_Scrape_positive:
  assumes "MockScraperWithRealData_Scrape NewMockScraperWithRealData env st = (Inr prices, st')"
  shows "\<forall>p \<in> set prices. 0 < Price p"
proof
  fix p assume p: "p \<in> set prices"
  from MockScraperWithRealData_Scrape_result [of NewMockScraperWithRealData env st] assms p
  obtain research k where "(Region p, research) \<in> set (LastResearch NewMockScraperWithRealData)"
    and "Price p = currentPrice research (unix_time env k)"
    by fastforce
  then show "0 < Price p" using research_positive by simp
qed

lemma ScrapeAll_loop_all:
  assumes "\<forall>sc \<in> set scs. \<forall>st prices st1.
             Scrape sc env st = (Inr prices, st1) \<longrightarrow> (\<forall>p \<in> set prices. P p)"
    and "\<forall>p \<in> set acc. P p"
    and "ScrapeAll_loop env scs (acc, st) = (ps, st')"
  shows "\<forall>p \<in> set ps. P p"
  using assms
proof (induction scs arbitrary: st)
  case Nil
  then show ?case by simp
next
  case (Cons sc scs)
  obtain r st1 where run: "Scrape sc env (log_Printf (LogTrying (GetName sc)) st) = (r, st1)"
    by (cases "Scrape sc env (log_Printf (LogTrying (GetName sc)) st)")
  have rest: "\<forall>sc \<in> set scs. \<forall>st prices st1.
             Scrape sc env st = (Inr prices, st1) \<longrightarrow> (\<forall>p \<in> set prices. P p)"
    using Cons.prems(1) by simp
  show ?case
  proof (cases r)
    case (Inl err)
    with Cons.prems(3) run have
      "ScrapeAll_loop env scs (acc, log_Printf (LogScraperFailed (GetName sc) err) st1) = (ps, st')"
      by simp
    from Cons.IH [OF rest Cons.prems(2) this] show ?thesis .
  next
    case (Inr prices)
    show ?thesis
    proof (cases "prices = []")
      case True
      with Cons.prems(3) run Inr have "ScrapeAll_loop env scs (acc, st1) = (ps, st')" by simp
      from Cons.IH [OF rest Cons.prems(2) this] show ?thesis .
    next
      case False
      with Cons.prems(3) run Inr have ps: "ps = acc @ prices" by simp
      have "\<forall>p \<in> set prices. P p"
        using Cons.prems(1) run Inr by (metis list.set_intros(1))
      with Cons.prems(2) show ?thesis unfolding ps by auto
    qed
  qed
qed

text \<open>
  Claim C4: every record of a batch that \<open>ScrapeAll\<close> of the program's coordinator
  returns without error, from the live provider or from the fallback provider, has a
  price greater than 0; and a table row whose cleaned price string fails to parse, or
  parses to a value that is not greater than 0, is discarded: the row adds no record.
\<close>

theorem accepted_prices_positive:
  "(\<forall>ps. fst (ScrapeAll NewScraperManager env st) = Inr ps \<longrightarrow> (\<forall>p \<in> set ps. 0 < Price p))
   \<and> (ParseFloat (cleaned (TrimSpace (cols ! 2))) = Inl e \<or> extractPrice (TrimSpace (cols ! 2)) \<le> 0
        \<longrightarrow> BAPPEBTIScraper_row s env url cols acc = acc)"
proof
  show "\<forall>ps. fst (ScrapeAll NewScraperManager env st) = Inr ps \<longrightarrow> (\<forall>p \<in> set ps. 0 < Price p)"
  proof (intro allI impI)
    fix ps assume a: "fst (ScrapeAll NewScraperManager env st) = Inr ps"
    obtain all st' where loop:
      "ScrapeAll_loop env (Scrapers NewScraperManager) ([], st) = (all, st')"
      by (cases "ScrapeAll_loop env (Scrapers NewScraperManager) ([], st)")
    with a have "ps = all" by (simp add: ScrapeAll_def split: if_splits)
    moreover have "\<forall>sc \<in> set (Scrapers NewScraperManager). \<forall>st prices st1.
             Scrape sc env st = (Inr prices, st1) \<longrightarrow> (\<forall>p \<in> set prices. 0 < Price p)"
      using BAPPEBTIScraper_Scrape_positive MockScraper_Scrape_positive
      by (simp add: NewScraperManager_def BAPPEBTI_def Mock_def) blast
    ultimately show "\<forall>p \<in> set ps. 0 < Price p"
      using ScrapeAll_loop_all [OF _ _ loop, of "\<lambda>p. 0 < Price p"] by simp
  qed
next
  show "ParseFloat (cleaned (TrimSpace (cols ! 2))) = Inl e \<or> extractPrice (TrimSpace (cols ! 2)) \<le> 0
        \<longrightarrow> BAPPEBTIScraper_row s env url cols acc = acc"
    by (cases acc) (auto simp: BAPPEBTIScraper_row_def Let_def extractPrice_def)
qed


lemma sample_live_batch:
  "fst (ScrapeAll NewScraperManager sample_live_env sample_state) =
     Inr [\<lparr>Region = ''Boyolali'', Price = 170001 / 2, Quality = ''Standard'',
           Source = ''BAPPEBTI Info Harga'', ScrapedAt = 1732954804,
           SourceURL = ''https://infoharga.bappebti.go.id/harga_komoditi_pedagang?komoditi=TEMBAKAU%20BOYOLALI''\<rparr>]"
  by (simp add: ScrapeAll_def NewScraperManager_def BAPPEBTI_def BAPPEBTIScraper_Scrape_def
      BAPPEBTIScraper_urls_def NewBAPPEBTIScraper_def BAPPEBTIScraper_row_def
      BAPPEBTIScraper_GetName_def http_Get_def log_Printf_def sample_live_env_def
      sample_env_def sample_state_def time_Now_def trim1 trim2 trim3 trim4 ex1 ex2)

text \<open>
  Claim C4, witness: the live source answers with three rows. The first becomes a record
  at 85000.5; the second, whose price cell is \<open>n/a\<close>, does not parse and is discarded; the
  third has fewer than four cells.
\<close>

theorem accepted_prices_positive_witness:
  "fst (ScrapeAll NewScraperManager sample_live_env sample_state) =
     Inr [\<lparr>Region = ''Boyolali'', Price = 170001 / 2, Quality = ''Standard'',
           Source = ''BAPPEBTI Info Harga'', ScrapedAt = 1732954804,
           SourceURL = ''https://infoharga.bappebti.go.id/harga_komoditi_pedagang?komoditi=TEMBAKAU%20BOYOLALI''\<rparr>]
   \<and> 0 < Price (hd (projr (fst (ScrapeAll NewScraperManager sample_live_env sample_state))))
   \<and> ParseFloat (cleaned (TrimSpace ([''2'', ''Solo'', ''n/a'', ''kg''] ! 2))) = Inl ErrSyntax
   \<and> BAPPEBTIScraper_row NewBAPPEBTIScraper sample_live_env ''url''
        [''2'', ''Solo'', ''n/a'', ''kg''] ([], sample_state) = ([], sample_state)"
proof -
  have parse: "ParseFloat (cleaned (TrimSpace ([''2'', ''Solo'', ''n/a'', ''kg''] ! 2))) = Inl ErrSyntax"
    by (simp add: trim3 ParseFloat_def cleaned_def decimal_syntax_def is_digit_def)
  note inst = accepted_prices_positive [of sample_live_env sample_state
      "[''2'', ''Solo'', ''n/a'', ''kg'']" ErrSyntax NewBAPPEBTIScraper "''url''"
      "([], sample_state)"]
  from inst have "\<forall>p \<in> set (projr (fst (ScrapeAll NewScraperManager sample_live_env sample_state))).
      0 < Price p"
    unfolding sample_live_batch by simp
  then have pos: "0 < Price (hd (projr (fst (ScrapeAll NewScraperManager sample_live_env sample_state))))"
    unfolding sample_live_batch by simp
  from inst parse have row: "BAPPEBTIScraper_row NewBAPPEBTIScraper sample_live_env ''url''
        [''2'', ''Solo'', ''n/a'', ''kg''] ([], sample_state) = ([], sample_state)"
    by blast
  show ?thesis using sample_live_batch pos parse row by blast
qed

section \<open>The latest price of a region\<close>

lemma first_by_created_at_desc_nonempty:
  assumes "rows \<noteq> []"
  shows "first_by_created_at_desc rows \<noteq> []"
proof -
  let ?m = "Max (row_created_at ` set rows)"
  have "?m \<in> row_created_at ` set rows" using assms by (intro Max_in) auto
  then obtain p where p: "p \<in> set rows" and m: "row_created_at p = ?m" by auto
  have "\<forall>q \<in> set rows. row_created_at q \<le> row_created_at p"
    unfolding m by (auto intro: Max_ge)
  then have "p \<in> set (first_by_created_at_desc rows)"
    using p by (simp add: first_by_created_at_desc_def list_all_iff)
  then show ?thesis by auto
qed

lemma first_by_created_at_desc_member:
  assumes "p \<in> set (first_by_created_at_desc rows)"
  shows "p \<in> set rows \<and> (\<forall>q \<in> set rows. row_created_at q \<le> row_created_at p)"
  using assms by (simp add: first_by_created_at_desc_def list_all_iff)

text \<open>
  Claim C9, amended: the latest price that \<open>GetLatestPriceJSON\<close> returns for a region is
  a stored record of that region whose \<open>created_at\<close> is the maximum over the region's
  records, and the call fails exactly when the table holds no record of the region. Which
  of several records with that same \<open>created_at\<close> is returned, the statement does not
  determine.
\<close>

theorem GetLatestPriceJSON_max_created_at:
  "(GetLatestPriceJSON env region st = Inr p \<longrightarrow>
      p \<in> set (prices_table st) \<and> row_region p = region
      \<and> (\<forall>q \<in> set (prices_table st).
            row_region q = region \<longrightarrow> row_created_at q \<le> row_created_at p))
   \<and> ((\<exists>e. GetLatestPriceJSON env region st = Inl e)
        = (\<forall>q \<in> set (prices_table st). row_region q \<noteq> region))"
proof -
  let ?rows = "where_region (prices_table st) region"
  let ?ties = "first_by_created_at_desc ?rows"
  have rows: "set ?rows = {q \<in> set (prices_table st). row_region q = region}"
    by (auto simp: where_region_def)
  have empty: "(?rows = []) = (\<forall>q \<in> set (prices_table st). row_region q \<noteq> region)"
    by (auto simp: where_region_def filter_empty_conv)
  have A: "GetLatestPriceJSON env region st = Inr p \<longrightarrow>
      p \<in> set (prices_table st) \<and> row_region p = region
      \<and> (\<forall>q \<in> set (prices_table st).
            row_region q = region \<longrightarrow> row_created_at q \<le> row_created_at p)"
  proof
    assume a: "GetLatestPriceJSON env region st = Inr p"
    then have ne: "?rows \<noteq> []" and p: "p = ?ties ! (tie_pick env mod length ?ties)"
      by (auto simp: GetLatestPriceJSON_def Let_def split: if_splits)
    have "?ties \<noteq> []" using first_by_created_at_desc_nonempty [OF ne] .
    then have "p \<in> set ?ties" unfolding p by simp
    from first_by_created_at_desc_member [OF this]
    show "p \<in> set (prices_table st) \<and> row_region p = region
      \<and> (\<forall>q \<in> set (prices_table st).
            row_region q = region \<longrightarrow> row_created_at q \<le> row_created_at p)"
      unfolding rows by blast
  qed
  have B: "(\<exists>e. GetLatestPriceJSON env region st = Inl e)
        = (\<forall>q \<in> set (prices_table st). row_region q \<noteq> region)"
    unfolding empty [symmetric] by (simp add: GetLatestPriceJSON_def Let_def)
  show ?thesis using A B by blast
qed

lemma sample_latest_Jember:
  "GetLatestPriceJSON sample_env ''Jember'' sample_store = Inr (sample_rows ! 1)"
  by (simp add: GetLatestPriceJSON_def where_region_def first_by_created_at_desc_def
      sample_store_def sample_state_def sample_rows_def sample_env_def less_eq_char_def
      less_char_def)

text \<open>
  Claim C9, as stated, breaks a tie between equal \<open>created_at\<close> values by the maximum
  \<open>id\<close>. In the sample store the records 2 and 3 of Jember were created within the same
  second; the database may put record 2 first, and then record 2 is the latest price,
  although record 3 has the same \<open>created_at\<close> and the greater \<open>id\<close>.
\<close>

theorem GetLatestPriceJSON_tie_counterexample:
  "GetLatestPriceJSON sample_env ''Jember'' sample_store = Inr (sample_rows ! 1)
   \<and> sample_rows ! 2 \<in> set (prices_table sample_store)
   \<and> row_region (sample_rows ! 2) = ''Jember''
   \<and> row_created_at (sample_rows ! 2) = row_created_at (sample_rows ! 1)
   \<and> row_id (sample_rows ! 1) < row_id (sample_rows ! 2)"
  unfolding sample_latest_Jember
  by (simp add: sample_store_def sample_state_def sample_rows_def)

text \<open>
  Claim C9, witness: in the sample store the latest price of Jember is record 2, created
  after record 1.
\<close>

theorem GetLatestPriceJSON_max_created_at_witness:
  "GetLatestPriceJSON sample_env ''Jember'' sample_store = Inr (sample_rows ! 1)
   \<and> sample_rows ! 0 \<in> set (prices_table sample_store)
   \<and> row_region (sample_rows ! 0) = ''Jember''
   \<and> row_region (sample_rows ! 1) = ''Jember''
   \<and> row_created_at (sample_rows ! 0) \<le> row_created_at (sample_rows ! 1)"
proof -
  have m: "sample_rows ! 0 \<in> set (prices_table sample_store)"
    and r: "row_region (sample_rows ! 0) = ''Jember''"
    by (simp_all add: sample_store_def sample_state_def sample_rows_def)
  from GetLatestPriceJSON_max_created_at [of sample_env "''Jember''" sample_store "sample_rows ! 1"]
    sample_latest_Jember m r
  show ?thesis by blast
qed

section \<open>Persisting the accepted batch\<close>

lemma SaveScrapedPrice_ok:
  "\<not> exec_fails env (execs st) \<Longrightarrow>
   SaveScrapedPrice env data st =
     (None,
      st\<lparr>execs := Suc (execs st),
         prices_table := prices_table st @
           [\<lparr>row_id = last_id st + 1, row_region = Region data, row_price = Price data,
             row_unit = ''kg'',
             row_source = Source data @ '' (Scraped: '' @ Quality data @ '')'',
             row_recorded_at = local_format env (ScrapedAt data),
             row_created_at = sql_datetime_now env (execs st)\<rparr>],
         last_id := last_id st + 1\<rparr>)"
  by (simp add: SaveScrapedPrice_def DB_Exec_insert_def Let_def)

lemma SaveScrapedPrice_fails:
  "exec_fails env (execs st) \<Longrightarrow>
   SaveScrapedPrice env data st = (Some ExecError, st\<lparr>execs := Suc (execs st)\<rparr>)"
  by (simp add: SaveScrapedPrice_def DB_Exec_insert_def Let_def)

lemma scraped_standard_suffix:
  "suffix '' (Scraped: Standard)'' (src @ '' (Scraped: '' @ ''Standard'' @ '')'')"
proof -
  have "src @ '' (Scraped: '' @ ''Standard'' @ '')'' = src @ '' (Scraped: Standard)''"
    by simp
  then show ?thesis unfolding suffix_def by blast
qed

lemma sublist_extend: "sublist xs ys \<Longrightarrow> sublist xs (ys @ zs)"
  unfolding sublist_def by (metis append.assoc)

text \<open>
  Claim C10: \<open>SaveScrapedPrice\<close>, when the insert succeeds, adds one row whose unit is
  \<open>kg\<close> whatever the record holds, and whose source is the record's source followed by
  \<open> (Scraped: \<close>, its quality and \<open>)\<close>, hence never empty; when the insert fails the
  table is unchanged. For a record of the fallback provider that stored source ends with
  \<open> (Scraped: Standard)\<close> and still contains \<open>Last checked:\<close>.
\<close>

theorem SaveScrapedPrice_unit_and_source:
  "(SaveScrapedPrice env data st = (None, st') \<longrightarrow>
      (\<exists>row. prices_table st' = prices_table st @ [row]
         \<and> row_unit row = ''kg''
         \<and> row_source row = Source data @ '' (Scraped: '' @ Quality data @ '')''
         \<and> row_source row \<noteq> []
         \<and> row_region row = Region data \<and> row_price row = Price data))
   \<and> (SaveScrapedPrice env data st = (Some err, st') \<longrightarrow> prices_table st' = prices_table st)
   \<and> (fst (MockScraperWithRealData_Scrape NewMockScraperWithRealData env0 st0) = Inr ps
        \<and> data \<in> set ps \<longrightarrow>
        suffix '' (Scraped: Standard)'' (Source data @ '' (Scraped: '' @ Quality data @ '')'')
        \<and> sublist ''Last checked:'' (Source data @ '' (Scraped: '' @ Quality data @ '')''))"
proof (intro conjI impI)
  assume a: "SaveScrapedPrice env data st = (None, st')"
  then have "\<not> exec_fails env (execs st)"
    by (auto simp: SaveScrapedPrice_def DB_Exec_insert_def Let_def split: if_splits)
  from SaveScrapedPrice_ok [OF this, of data] a
  have "prices_table st' = prices_table st @
           [\<lparr>row_id = last_id st + 1, row_region = Region data, row_price = Price data,
             row_unit = ''kg'',
             row_source = Source data @ '' (Scraped: '' @ Quality data @ '')'',
             row_recorded_at = local_format env (ScrapedAt data),
             row_created_at = sql_datetime_now env (execs st)\<rparr>]"
    by auto
  then show "\<exists>row. prices_table st' = prices_table st @ [row]
         \<and> row_unit row = ''kg''
         \<and> row_source row = Source data @ '' (Scraped: '' @ Quality data @ '')''
         \<and> row_source row \<noteq> []
         \<and> row_region row = Region data \<and> row_price row = Price data"
    by simp
next
  assume "SaveScrapedPrice env data st = (Some err, st')"
  then show "prices_table st' = prices_table st"
    by (auto simp: SaveScrapedPrice_def DB_Exec_insert_def Let_def split: if_splits)
next
  assume a: "fst (MockScraperWithRealData_Scrape NewMockScraperWithRealData env0 st0) = Inr ps
        \<and> data \<in> set ps"
  from MockScraperWithRealData_Scrape_result [of NewMockScraperWithRealData env0 st0]
  obtain ps' st1 where
    run: "MockScraperWithRealData_Scrape NewMockScraperWithRealData env0 st0 = (Inr ps', st1)"
    and records: "\<forall>p \<in> set ps'. \<exists>research k.
            (Region p, research) \<in> set (LastResearch NewMockScraperWithRealData)
            \<and> Price p = currentPrice research (unix_time env0 k)
            \<and> Source p = ResearchSource research @ '' (Last checked: '' @
                            Format_date (DateChecked research) @ '')''
            \<and> Quality p = ''Standard''"
    by blast
  from a run have "data \<in> set ps'" by simp
  with records have "\<exists>research k.
            (Region data, research) \<in> set (LastResearch NewMockScraperWithRealData)
            \<and> Price data = currentPrice research (unix_time env0 k)
            \<and> Source data = ResearchSource research @ '' (Last checked: '' @
                            Format_date (DateChecked research) @ '')''
            \<and> Quality data = ''Standard''"
    by (rule bspec)
  then obtain research :: PriceResearch where
    src: "Source data = ResearchSource research @ '' (Last checked: '' @
                            Format_date (DateChecked research) @ '')''"
    and q: "Quality data = ''Standard''"
    by blast
  show "suffix '' (Scraped: Standard)'' (Source data @ '' (Scraped: '' @ Quality data @ '')'')"
    unfolding q by (rule scraped_standard_suffix)
  have "sublist ''Last checked:'' (Source data)"
    unfolding src by (rule last_checked_sublist)
  then show "sublist ''Last checked:'' (Source data @ '' (Scraped: '' @ Quality data @ '')'')"
    by (rule sublist_extend)
qed

text \<open>
  Claim C10, witness: saving the record of Jember of the sample batch into the empty
  table adds a row with unit \<open>kg\<close> and the source
  \<open>DPRD Jember Report (Last checked: 2024-09-15) (Scraped: Standard)\<close>.
\<close>

theorem SaveScrapedPrice_unit_and_source_witness:
  "fst (SaveScrapedPrice sample_env
          (hd (projr (fst (MockScraperWithRealData_Scrape NewMockScraperWithRealData
                             sample_env sample_state)))) sample_state) = None
   \<and> map row_unit (prices_table (snd (SaveScrapedPrice sample_env
          (hd (projr (fst (MockScraperWithRealData_Scrape NewMockScraperWithRealData
                             sample_env sample_state)))) sample_state))) = [''kg'']
   \<and> map row_source (prices_table (snd (SaveScrapedPrice sample_env
          (hd (projr (fst (MockScraperWithRealData_Scrape NewMockScraperWithRealData
                             sample_env sample_state)))) sample_state))) =
       [''DPRD Jember Report (Last checked: 2024-09-15) (Scraped: Standard)'']
   \<and> suffix '' (Scraped: Standard)''
        ''DPRD Jember Report (Last checked: 2024-09-15) (Scraped: Standard)''
   \<and> sublist ''Last checked:''
        ''DPRD Jember Report (Last checked: 2024-09-15) (Scraped: Standard)''"
proof -
  let ?ps = "projr (fst (MockScraperWithRealData_Scrape NewMockScraperWithRealData
                             sample_env sample_state))"
  let ?d = "hd ?ps"
  obtain st' where run: "SaveScrapedPrice sample_env ?d sample_state = (None, st')"
    using SaveScrapedPrice_ok [of sample_env sample_state ?d]
    by (simp add: sample_env_def sample_state_def)
  have batch: "fst (MockScraperWithRealData_Scrape NewMockScraperWithRealData
                             sample_env sample_state) = Inr ?ps"
    and mem: "?d \<in> set ?ps"
    and src: "Source ?d = ''DPRD Jember Report (Last checked: 2024-09-15)''"
    and q: "Quality ?d = ''Standard''"
    unfolding sample_mock_batch by simp_all
  have empty: "prices_table sample_state = []" by (simp add: sample_state_def)
  note inst = SaveScrapedPrice_unit_and_source [of sample_env ?d sample_state st' ExecError
      sample_env sample_state ?ps]
  from inst run obtain row where tbl: "prices_table st' = [row]"
    and u: "row_unit row = ''kg''"
    and s: "row_source row = Source ?d @ '' (Scraped: '' @ Quality ?d @ '')''"
    unfolding empty by auto
  from inst batch mem
  have "suffix '' (Scraped: Standard)'' (Source ?d @ '' (Scraped: '' @ Quality ?d @ '')'')"
    and "sublist ''Last checked:'' (Source ?d @ '' (Scraped: '' @ Quality ?d @ '')'')"
    by blast+
  then have sx: "suffix '' (Scraped: Standard)''
        ''DPRD Jember Report (Last checked: 2024-09-15) (Scraped: Standard)''"
    and sl: "sublist ''Last checked:''
        ''DPRD Jember Report (Last checked: 2024-09-15) (Scraped: Standard)''"
    unfolding src q by simp_all
  have s': "row_source row = ''DPRD Jember Report (Last checked: 2024-09-15) (Scraped: Standard)''"
    using s unfolding src q by simp
  show ?thesis
    unfolding run using tbl u s' sx sl by simp
qed

lemma loop_step_ok:
  "\<not> exec_fails env (execs st) \<Longrightarrow>
   AutoFetchPricesFromScraper_loop env (price # rest) st =
     AutoFetchPricesFromScraper_loop env rest
       (log_Printf (LogSaved (Region price) (Price price) (Source price))
          (snd (SaveScrapedPrice env price st)))"
  by (simp add: SaveScrapedPrice_ok)

lemma loop_step_fails:
  "exec_fails env (execs st) \<Longrightarrow>
   AutoFetchPricesFromScraper_loop env (price # rest) st =
     AutoFetchPricesFromScraper_loop env rest
       (log_Printf (LogSaveError (Region price) ExecError)
          (snd (SaveScrapedPrice env price st)))"
  by (simp add: SaveScrapedPrice_fails)

lemma loop_execs:
  "execs (AutoFetchPricesFromScraper_loop env ps st) = execs st + length ps"
proof (induction ps arbitrary: st)
  case Nil
  show ?case by simp
next
  case (Cons price rest)
  show ?case
  proof (cases "exec_fails env (execs st)")
    case True
    show ?thesis
      unfolding loop_step_fails [OF True] Cons.IH
      by (simp add: SaveScrapedPrice_fails [OF True] log_Printf_def)
  next
    case False
    show ?thesis
      unfolding loop_step_ok [OF False] Cons.IH
      by (simp add: SaveScrapedPrice_ok [OF False] log_Printf_def)
  qed
qed

lemma loop_grows:
  "set (prices_table st) \<subseteq> set (prices_table (AutoFetchPricesFromScraper_loop env ps st))
   \<and> set (logged st) \<subseteq> set (logged (AutoFetchPricesFromScraper_loop env ps st))"
proof (induction ps arbitrary: st)
  case Nil
  show ?case by simp
next
  case (Cons price rest)
  show ?case
  proof (cases "exec_fails env (execs st)")
    case True
    show ?thesis
      unfolding loop_step_fails [OF True]
      using Cons.IH [of "log_Printf (LogSaveError (Region price) ExecError)
          (snd (SaveScrapedPrice env price st))"]
      by (auto simp: SaveScrapedPrice_fails [OF True] log_Printf_def)
  next
    case False
    show ?thesis
      unfolding loop_step_ok [OF False]
      using Cons.IH [of "log_Printf (LogSaved (Region price) (Price price) (Source price))
          (snd (SaveScrapedPrice env price st))"]
      by (auto simp: SaveScrapedPrice_ok [OF False] log_Printf_def)
  qed
qed

lemma loop_each:
  "i < length ps \<Longrightarrow>
   (if exec_fails env (execs st + i)
    then LogSaveError (Region (ps ! i)) ExecError
           \<in> set (logged (AutoFetchPricesFromScraper_loop env ps st))
    else \<exists>row \<in> set (prices_table (AutoFetchPricesFromScraper_loop env ps st)).
           row_region row = Region (ps ! i) \<and> row_price row = Price (ps ! i)
           \<and> row_unit row = ''kg''
           \<and> row_source row = Source (ps ! i) @ '' (Scraped: '' @ Quality (ps ! i) @ '')''
           \<and> row_created_at row = sql_datetime_now env (execs st + i))"
proof (induction ps arbitrary: st i)
  case Nil
  then show ?case by simp
next
  case (Cons price rest)
  define st1 where "st1 =
    (if exec_fails env (execs st)
     then log_Printf (LogSaveError (Region price) ExecError) (snd (SaveScrapedPrice env price st))
     else log_Printf (LogSaved (Region price) (Price price) (Source price))
            (snd (SaveScrapedPrice env price st)))"
  have step: "AutoFetchPricesFromScraper_loop env (price # rest) st =
              AutoFetchPricesFromScraper_loop env rest st1"
    unfolding st1_def using loop_step_ok loop_step_fails by (cases "exec_fails env (execs st)") auto
  have ex: "execs st1 = Suc (execs st)"
    unfolding st1_def
    by (cases "exec_fails env (execs st)")
       (simp_all add: SaveScrapedPrice_ok SaveScrapedPrice_fails log_Printf_def)
  show ?case
  proof (cases i)
    case 0
    show ?thesis
    proof (cases "exec_fails env (execs st)")
      case True
      then have "LogSaveError (Region price) ExecError \<in> set (logged st1)"
        unfolding st1_def by (simp add: log_Printf_def)
      then show ?thesis
        unfolding step using loop_grows [of st1 env rest] True 0 by auto
    next
      case False
      then have "\<exists>row \<in> set (prices_table st1).
           row_region row = Region price \<and> row_price row = Price price
           \<and> row_unit row = ''kg''
           \<and> row_source row = Source price @ '' (Scraped: '' @ Quality price @ '')''
           \<and> row_created_at row = sql_datetime_now env (execs st)"
        unfolding st1_def by (simp add: SaveScrapedPrice_ok log_Printf_def)
      then show ?thesis
        unfolding step using loop_grows [of st1 env rest] False 0 by auto
    qed
  next
    case (Suc j)
    with Cons.prems have j: "j < length rest" by simp
    have e: "execs st + i = execs st1 + j" using ex Suc by simp
    have n: "(price # rest) ! i = rest ! j" using Suc by simp
    show ?thesis
      unfolding step n e by (rule Cons.IH [OF j, of st1])
  qed
qed

lemma loop_rows_count:
  "length (prices_table (AutoFetchPricesFromScraper_loop env ps st)) =
   length (prices_table st) + length (filter (\<lambda>i. \<not> exec_fails env (execs st + i)) [0..<length ps])"
proof (induction ps arbitrary: st)
  case Nil
  show ?case by simp
next
  case (Cons price rest)
  have shift: "filter (\<lambda>i. \<not> exec_fails env (execs st + i)) [0..<length (price # rest)] =
      (if exec_fails env (execs st) then [] else [0]) @
      map Suc (filter (\<lambda>i. \<not> exec_fails env (Suc (execs st) + i)) [0..<length rest])"
    by (simp add: upt_conv_Cons map_Suc_upt [symmetric] filter_map comp_def del: upt_Suc)
  show ?case
  proof (cases "exec_fails env (execs st)")
    case True
    show ?thesis
      unfolding loop_step_fails [OF True] Cons.IH shift
      by (simp add: SaveScrapedPrice_fails [OF True] log_Printf_def True)
  next
    case False
    show ?thesis
      unfolding loop_step_ok [OF False] Cons.IH shift
      by (simp add: SaveScrapedPrice_ok [OF False] log_Printf_def False)
  qed
qed

text \<open>
  Claim C8: when an acquisition pass has accepted a batch, \<open>AutoFetchPricesFromScraper\<close>
  returns success whatever inserts fail; it runs one insert per record of the batch; a
  record whose insert fails is logged and skipped; and every record whose insert does not
  fail gets its row, also after a failure earlier in the batch, so the rows added are as
  many as the inserts that did not fail.
\<close>

theorem AutoFetchPricesFromScraper_skips_failed_inserts:
  assumes "ScrapeAll NewScraperManager env st = (Inr ps, st1)"
  shows "\<exists>st2. AutoFetchPricesFromScraper env st = (None, st2)
     \<and> execs st2 = execs st1 + length ps
     \<and> (\<forall>i < length ps.
          if exec_fails env (execs st1 + i)
          then LogSaveError (Region (ps ! i)) ExecError \<in> set (logged st2)
          else \<exists>row \<in> set (prices_table st2).
                 row_region row = Region (ps ! i) \<and> row_price row = Price (ps ! i)
                 \<and> row_unit row = ''kg''
                 \<and> row_source row = Source (ps ! i) @ '' (Scraped: '' @ Quality (ps ! i) @ '')''
                 \<and> row_created_at row = sql_datetime_now env (execs st1 + i))
     \<and> length (prices_table st2) =
         length (prices_table st1) +
         length (filter (\<lambda>i. \<not> exec_fails env (execs st1 + i)) [0..<length ps])"
proof -
  let ?st2 = "AutoFetchPricesFromScraper_loop env ps st1"
  have "AutoFetchPricesFromScraper env st = (None, ?st2)"
    using assms by (simp add: AutoFetchPricesFromScraper_def)
  moreover have "execs ?st2 = execs st1 + length ps" by (rule loop_execs)
  moreover have "\<forall>i < length ps.
          if exec_fails env (execs st1 + i)
          then LogSaveError (Region (ps ! i)) ExecError \<in> set (logged ?st2)
          else \<exists>row \<in> set (prices_table ?st2).
                 row_region row = Region (ps ! i) \<and> row_price row = Price (ps ! i)
                 \<and> row_unit row = ''kg''
                 \<and> row_source row = Source (ps ! i) @ '' (Scraped: '' @ Quality (ps ! i) @ '')''
                 \<and> row_created_at row = sql_datetime_now env (execs st1 + i)"
    using loop_each [of _ ps env st1] by blast
  moreover have "length (prices_table ?st2) =
         length (prices_table st1) +
         length (filter (\<lambda>i. \<not> exec_fails env (execs st1 + i)) [0..<length ps])"
    by (rule loop_rows_count)
  ultimately show ?thesis by blast
qed


lemma sample_env_fields:
  "http_get sample_env k url = FetchFailed"
  "exec_fails sample_env k = (k = 1)"
  "sql_datetime_now sample_env k = ''2024-11-30 08:20:04''"
  "local_format sample_env t = ''2024-11-30 15:20:04''"
  "tie_pick sample_env = 0"
  by (simp_all add: sample_env_def)

lemma sample_acquire:
  "ScrapeAll NewScraperManager sample_env sample_state =
     (Inr [\<lparr>Region = ''Jember'', Price = 86700, Quality = ''Standard'',
            Source = ''DPRD Jember Report (Last checked: 2024-09-15)'',
            ScrapedAt = 1732954804, SourceURL = ''Manual Research + Market Data''\<rparr>,
           \<lparr>Region = ''Temanggung'', Price = 153000, Quality = ''Standard'',
            Source = ''InfoPublik + ANTARA News (Last checked: 2024-09-18)'',
            ScrapedAt = 1732954804, SourceURL = ''Manual Research + Market Data''\<rparr>,
           \<lparr>Region = ''Lombok'', Price = 79560, Quality = ''Standard'',
            Source = ''Market Survey (Last checked: 2024-08-01)'',
            ScrapedAt = 1732954804, SourceURL = ''Manual Research + Market Data''\<rparr>,
           \<lparr>Region = ''Klaten'', Price = 89760, Quality = ''Standard'',
            Source = ''Local Market (Last checked: 2024-07-15)'',
            ScrapedAt = 1732954804, SourceURL = ''Manual Research + Market Data''\<rparr>,
           \<lparr>Region = ''Pamekasan'', Price = 96900, Quality = ''Standard'',
            Source = ''Madura Market Survey (Last checked: 2024-08-20)'',
            ScrapedAt = 1732954804, SourceURL = ''Manual Research + Market Data''\<rparr>],
      \<lparr>logged =
         [LogTrying ''BAPPEBTI Info Harga'',
          LogFetchError ''https://infoharga.bappebti.go.id/harga_komoditi_pedagang?komoditi=TEMBAKAU%20BOYOLALI'',
          LogFetchError ''https://infoharga.bappebti.go.id/harga_komoditi_pedagang?komoditi=TEMBAKAU%20BURLEY'',
          LogFetchError ''https://infoharga.bappebti.go.id/harga_komoditi_pedagang?komoditi=TEMBAKAU%20KASTURI'',
          LogTrying ''Real Data Research + Market Simulation'',
          LogReturned ''Real Data Research + Market Simulation'' 5],
       clock_reads = 10,
       requests =
         [''https://infoharga.bappebti.go.id/harga_komoditi_pedagang?komoditi=TEMBAKAU%20BOYOLALI'',
          ''https://infoharga.bappebti.go.id/harga_komoditi_pedagang?komoditi=TEMBAKAU%20BURLEY'',
          ''https://infoharga.bappebti.go.id/harga_komoditi_pedagang?komoditi=TEMBAKAU%20KASTURI''],
       prices_table = [], last_id = 0, execs = 0\<rparr>)"
  by (simp add: ScrapeAll_def NewScraperManager_def BAPPEBTI_def BAPPEBTIScraper_Scrape_def
      BAPPEBTIScraper_urls_def NewBAPPEBTIScraper_def BAPPEBTIScraper_GetName_def
      http_Get_def log_Printf_def Mock_def MockScraperWithRealData_GetName_def
      sample_mock_batch_from sample_env_fields sample_state_def)

text \<open>
  Claim C8, witness: in the sample world the batch is the five records of the fallback
  provider and the second insert fails. The call returns success, five inserts are run,
  the failure is logged for Temanggung, and the records after it are stored.
\<close>

theorem AutoFetchPricesFromScraper_skips_failed_inserts_witness:
  "fst (AutoFetchPricesFromScraper sample_env sample_state) = None
   \<and> execs (snd (AutoFetchPricesFromScraper sample_env sample_state)) = 5
   \<and> exec_fails sample_env 1
   \<and> LogSaveError ''Temanggung'' ExecError
        \<in> set (logged (snd (AutoFetchPricesFromScraper sample_env sample_state)))
   \<and> map row_region (prices_table (snd (AutoFetchPricesFromScraper sample_env sample_state))) =
       [''Jember'', ''Lombok'', ''Klaten'', ''Pamekasan'']"
proof -
  note inst = AutoFetchPricesFromScraper_skips_failed_inserts [OF sample_acquire]
  then obtain st2 where run: "AutoFetchPricesFromScraper sample_env sample_state = (None, st2)"
    and ex: "execs st2 = 5"
    and each: "\<forall>i < 5. if exec_fails sample_env i
          then LogSaveError (Region ([\<lparr>Region = ''Jember'', Price = 86700, Quality = ''Standard'',
            Source = ''DPRD Jember Report (Last checked: 2024-09-15)'',
            ScrapedAt = 1732954804, SourceURL = ''Manual Research + Market Data''\<rparr>,
           \<lparr>Region = ''Temanggung'', Price = 153000, Quality = ''Standard'',
            Source = ''InfoPublik + ANTARA News (Last checked: 2024-09-18)'',
            ScrapedAt = 1732954804, SourceURL = ''Manual Research + Market Data''\<rparr>,
           \<lparr>Region = ''Lombok'', Price = 79560, Quality = ''Standard'',
            Source = ''Market Survey (Last checked: 2024-08-01)'',
            ScrapedAt = 1732954804, SourceURL = ''Manual Research + Market Data''\<rparr>,
           \<lparr>Region = ''Klaten'', Price = 89760, Quality = ''Standard'',
            Source = ''Local Market (Last checked: 2024-07-15)'',
            ScrapedAt = 1732954804, SourceURL = ''Manual Research + Market Data''\<rparr>,
           \<lparr>Region = ''Pamekasan'', Price = 96900, Quality = ''Standard'',
            Source = ''Madura Market Survey (Last checked: 2024-08-20)'',
            ScrapedAt = 1732954804, SourceURL = ''Manual Research + Market Data''\<rparr>] ! i)) ExecError
               \<in> set (logged st2)
          else True"
    by auto
  have fails: "exec_fails sample_env 1" by (simp add: sample_env_fields)
  from spec [OF each, of 1] fails
  have lg: "LogSaveError ''Temanggung'' ExecError \<in> set (logged st2)"
    by simp
  have tbl: "map row_region (prices_table (snd (AutoFetchPricesFromScraper sample_env sample_state))) =
       [''Jember'', ''Lombok'', ''Klaten'', ''Pamekasan'']"
    by (simp add: AutoFetchPricesFromScraper_def sample_acquire SaveScrapedPrice_def
        DB_Exec_insert_def log_Printf_def Let_def sample_env_fields)
  show ?thesis using run ex fails lg tbl by simp
qed

section \<open>The handler of /harga/current and the preview\<close>

lemma sample_acquire_from:
  "ScrapeAll NewScraperManager sample_env st =
     (Inr [\<lparr>Region = ''Jember'', Price = 86700, Quality = ''Standard'',
            Source = ''DPRD Jember Report (Last checked: 2024-09-15)'',
            ScrapedAt = 1732954804, SourceURL = ''Manual Research + Market Data''\<rparr>,
           \<lparr>Region = ''Temanggung'', Price = 153000, Quality = ''Standard'',
            Source = ''InfoPublik + ANTARA News (Last checked: 2024-09-18)'',
            ScrapedAt = 1732954804, SourceURL = ''Manual Research + Market Data''\<rparr>,
           \<lparr>Region = ''Lombok'', Price = 79560, Quality = ''Standard'',
            Source = ''Market Survey (Last checked: 2024-08-01)'',
            ScrapedAt = 1732954804, SourceURL = ''Manual Research + Market Data''\<rparr>,
           \<lparr>Region = ''Klaten'', Price = 89760, Quality = ''Standard'',
            Source = ''Local Market (Last checked: 2024-07-15)'',
            ScrapedAt = 1732954804, SourceURL = ''Manual Research + Market Data''\<rparr>,
           \<lparr>Region = ''Pamekasan'', Price = 96900, Quality = ''Standard'',
            Source = ''Madura Market Survey (Last checked: 2024-08-20)'',
            ScrapedAt = 1732954804, SourceURL = ''Manual Research + Market Data''\<rparr>],
      st\<lparr>logged := logged st @
         [LogTrying ''BAPPEBTI Info Harga'',
          LogFetchError ''https://infoharga.bappebti.go.id/harga_komoditi_pedagang?komoditi=TEMBAKAU%20BOYOLALI'',
          LogFetchError ''https://infoharga.bappebti.go.id/harga_komoditi_pedagang?komoditi=TEMBAKAU%20BURLEY'',
          LogFetchError ''https://infoharga.bappebti.go.id/harga_komoditi_pedagang?komoditi=TEMBAKAU%20KASTURI'',
          LogTrying ''Real Data Research + Market Simulation'',
          LogReturned ''Real Data Research + Market Simulation'' 5],
       clock_reads := clock_reads st + 10,
       requests := requests st @
         [''https://infoharga.bappebti.go.id/harga_komoditi_pedagang?komoditi=TEMBAKAU%20BOYOLALI'',
          ''https://infoharga.bappebti.go.id/harga_komoditi_pedagang?komoditi=TEMBAKAU%20BURLEY'',
          ''https://infoharga.bappebti.go.id/harga_komoditi_pedagang?komoditi=TEMBAKAU%20KASTURI'']\<rparr>)"
  by (simp add: ScrapeAll_def NewScraperManager_def BAPPEBTI_def BAPPEBTIScraper_Scrape_def
      BAPPEBTIScraper_urls_def NewBAPPEBTIScraper_def BAPPEBTIScraper_GetName_def
      http_Get_def log_Printf_def Mock_def MockScraperWithRealData_GetName_def
      sample_mock_batch_from sample_env_fields)

lemma EqualFold_jember: "EqualFold ''Jember'' ''jember''"
  by (simp add: EqualFold_def fold_ascii_def)

lemma sample_preview_jember:
  "GetScrapedPriceJSON sample_env ''jember'' sample_store =
     (Inr \<lparr>Region = ''Jember'', Price = 86700, Quality = ''Standard'',
           Source = ''DPRD Jember Report (Last checked: 2024-09-15)'',
           ScrapedAt = 1732954804, SourceURL = ''Manual Research + Market Data''\<rparr>,
      snd (ScrapeAll NewScraperManager sample_env sample_store))"
  by (simp add: GetScrapedPriceJSON_def sample_acquire_from EqualFold_jember)

lemma sample_handler_Jember:
  "GetCurrentPriceHandler sample_env sample_request (new_ResponseWriter, sample_store) =
     (\<lparr>ContentType = ''application/json'', StatusCode = 200,
       Body = [JSON_Price (sample_rows ! 1)]\<rparr>,
      log_Printf (LogRequest ''GET'' ''/harga/current'' ''region=Jember'') sample_store)"
  by (simp add: GetCurrentPriceHandler_def chain_def withErrorHandling_def
      withJSONContentType_def withLogging_def withRecovery_def getRegionOrDefault_def
      sample_request_def new_ResponseWriter_def Write_def WriteHeader_def
      GetLatestPriceJSON_def where_region_def first_by_created_at_desc_def
      sample_store_def sample_state_def sample_rows_def sample_env_fields log_Printf_def
      less_eq_char_def less_char_def Let_def)

lemma sample_handler_jember:
  "GetCurrentPriceHandler sample_env
     (sample_request\<lparr>URL_RawQuery := ''region=jember'', query_region := ''jember''\<rparr>)
     (new_ResponseWriter, sample_store) =
     (\<lparr>ContentType = ''text/plain; charset=utf-8'', StatusCode = 500,
       Body = [ErrorText (NoPriceData ''jember'')]\<rparr>,
      log_Printf (LogHandlerError (NoPriceData ''jember''))
        (log_Printf (LogRequest ''GET'' ''/harga/current'' ''region=jember'') sample_store))"
  by (simp add: GetCurrentPriceHandler_def chain_def withErrorHandling_def
      withJSONContentType_def withLogging_def withRecovery_def getRegionOrDefault_def
      sample_request_def new_ResponseWriter_def Write_def WriteHeader_def respondError_def
      GetLatestPriceJSON_def where_region_def first_by_created_at_desc_def
      sample_store_def sample_state_def sample_rows_def sample_env_fields log_Printf_def
      Let_def)


text \<open>
  Claim C7 says that the handler of \<open>GET /harga/current\<close> runs an acquisition pass and
  answers with the first record of the batch whose region matches case-insensitively.
  The handler calls \<open>GetLatestPriceJSON\<close> instead. Run on the sample store with the live
  source down: for \<open>region=jember\<close> it answers 500, no price data, and makes no request,
  where \<open>GetScrapedPriceJSON\<close> returns the record of Jember acquired at 86700; and for
  \<open>region=Jember\<close> it answers with the row stored by hand at 91000.
\<close>

theorem GetCurrentPriceHandler_reads_the_store:
  "fst (GetCurrentPriceHandler sample_env
          (sample_request\<lparr>URL_RawQuery := ''region=jember'', query_region := ''jember''\<rparr>)
          (new_ResponseWriter, sample_store)) =
     \<lparr>ContentType = ''text/plain; charset=utf-8'', StatusCode = 500,
      Body = [ErrorText (NoPriceData ''jember'')]\<rparr>
   \<and> requests (snd (GetCurrentPriceHandler sample_env
          (sample_request\<lparr>URL_RawQuery := ''region=jember'', query_region := ''jember''\<rparr>)
          (new_ResponseWriter, sample_store))) = []
   \<and> fst (GetScrapedPriceJSON sample_env ''jember'' sample_store) =
       Inr \<lparr>Region = ''Jember'', Price = 86700, Quality = ''Standard'',
            Source = ''DPRD Jember Report (Last checked: 2024-09-15)'',
            ScrapedAt = 1732954804, SourceURL = ''Manual Research + Market Data''\<rparr>
   \<and> length (requests (snd (GetScrapedPriceJSON sample_env ''jember'' sample_store))) = 3
   \<and> fst (GetCurrentPriceHandler sample_env sample_request (new_ResponseWriter, sample_store)) =
       \<lparr>ContentType = ''application/json'', StatusCode = 200,
        Body = [JSON_Price (sample_rows ! 1)]\<rparr>
   \<and> row_price (sample_rows ! 1) = 91000"
  unfolding sample_handler_jember sample_handler_Jember sample_preview_jember
  by (simp add: sample_acquire_from log_Printf_def sample_store_def sample_state_def
      sample_rows_def)

end
